theory Spec2Isabelle
  imports Complex_Main "HOL-Library.AList"
begin

section \<open>Python floats (IEEE 754 binary64)\<close>

text \<open>
  The prices of \<^verbatim>\<open>payment_service.py\<close> are Python floats. A finite float is
  modelled by the rational number it denotes; every arithmetic operation computes the
  exact rational result and rounds it to the nearest binary64 value, ties to even
  (53 significant bits, smallest quantum \<open>2\<^sup>-\<^sup>1\<^sup>0\<^sup>7\<^sup>4\<close>, overflow from \<open>2\<^sup>1\<^sup>0\<^sup>2\<^sup>4\<close> on).
  The sign of a zero is not represented: \<open>0.0\<close> and \<open>-0.0\<close> compare equal in Python and
  no operation of the service tells them apart.
\<close>

datatype pyfloat = Finite rat | PInf | NInf | NaN

definition pow2 :: "int \<Rightarrow> rat" where
  "pow2 e = (if 0 \<le> e then 2 ^ nat e else 1 / 2 ^ nat (- e))"

text \<open>The number of binary digits of a positive integer (\<open>int.bit_length\<close>).\<close>

function bit_length :: "int \<Rightarrow> int" where
  "bit_length n = (if n \<le> 0 then 0 else 1 + bit_length (n div 2))"
  by pat_completeness auto
termination
  by (relation "measure nat") auto

declare bit_length.simps [simp del]

text \<open>\<open>ilog2 q\<close> is the exponent \<open>e\<close> with \<open>2\<^sup>e \<le> q < 2\<^sup>e\<^sup>+\<^sup>1\<close>, for \<open>q > 0\<close>.\<close>

definition ilog2 :: "rat \<Rightarrow> int" where
  "ilog2 q =
     (if 1 \<le> q then bit_length \<lfloor>q\<rfloor> - 1
      else let k = bit_length \<lfloor>1 / q\<rfloor> - 1
           in if q = pow2 (- k) then - k else - k - 1)"

definition rnd_half_even :: "rat \<Rightarrow> int" where
  "rnd_half_even q =
     (let f = \<lfloor>q\<rfloor>; d = q - of_int f
      in if d < 1 / 2 then f else if 1 / 2 < d then f + 1
         else if even f then f else f + 1)"

definition rnd64 :: "rat \<Rightarrow> rat" where
  "rnd64 q =
     (if q = 0 then 0
      else let qe = max (ilog2 \<bar>q\<bar> - 52) (- 1074)
           in of_int (rnd_half_even (q / pow2 qe)) * pow2 qe)"

definition overflows :: "rat \<Rightarrow> bool" where
  "overflows r \<longleftrightarrow> 2 ^ 1024 \<le> \<bar>r\<bar>"

text \<open>The exceptions of the service, as values. The string is the message (or, for
  \<open>HTTPException\<close>, the status code and the detail).\<close>

datatype exn =
    HTTPException nat string
  | ValueError string
  | KeyError string
  | TypeError string
  | AttributeError string
  | OverflowError string
  | JSONDecodeError string
  | SignatureVerificationError string
  | WebhookInvalidPayload string
  | WebhookInvalidSignature string
  | ProviderError string

text \<open>\<open>float(n)\<close> as done by \<open>n * x\<close> for an int \<open>n\<close> and a float \<open>x\<close>: correctly
  rounded, \<open>OverflowError\<close> when \<open>n\<close> is too large.\<close>

definition float_of_int :: "int \<Rightarrow> exn + pyfloat" where
  "float_of_int n =
     (let r = rnd64 (of_int n)
      in if overflows r then Inl (OverflowError ''int too large to convert to float'')
         else Inr (Finite r))"

definition fsign :: "pyfloat \<Rightarrow> int" where
  "fsign x =
     (case x of
        Finite a \<Rightarrow> (if a = 0 then 0 else if 0 < a then 1 else - 1)
      | PInf \<Rightarrow> 1 | NInf \<Rightarrow> - 1 | NaN \<Rightarrow> 0)"

text \<open>\<open>x * y\<close> on floats.\<close>

definition fmul :: "pyfloat \<Rightarrow> pyfloat \<Rightarrow> pyfloat" where
  "fmul x y =
     (case (x, y) of
        (Finite a, Finite b) \<Rightarrow>
          (let r = rnd64 (a * b)
           in if overflows r then (if 0 < r then PInf else NInf) else Finite r)
      | _ \<Rightarrow>
          if x = NaN \<or> y = NaN \<or> fsign x * fsign y = 0 then NaN
          else if 0 < fsign x * fsign y then PInf else NInf)"

text \<open>\<open>round(x, 2)\<close>: the exact value of \<open>x\<close> is rounded to two decimal places, ties to
  even, and the decimal result is converted back to the nearest float. Infinities and
  NaN round to themselves.\<close>

definition py_round2 :: "pyfloat \<Rightarrow> pyfloat" where
  "py_round2 x =
     (case x of
        Finite a \<Rightarrow> Finite (rnd64 (of_int (rnd_half_even (a * 100)) / 100))
      | _ \<Rightarrow> x)"

text \<open>\<open>int(x)\<close>: truncation towards zero.\<close>

definition py_int :: "pyfloat \<Rightarrow> exn + int" where
  "py_int x =
     (case x of
        Finite a \<Rightarrow> Inr (if 0 \<le> a then \<lfloor>a\<rfloor> else - \<lfloor>- a\<rfloor>)
      | NaN \<Rightarrow> Inl (ValueError ''cannot convert float NaN to integer'')
      | _ \<Rightarrow> Inl (OverflowError ''cannot convert float infinity to integer''))"

text \<open>\<open>x <= 0\<close> and \<open>0 < x\<close> for a float \<open>x\<close>; every comparison with NaN is false.\<close>

definition fle0 :: "pyfloat \<Rightarrow> bool" where
  "fle0 x = (case x of Finite a \<Rightarrow> a \<le> 0 | NInf \<Rightarrow> True | _ \<Rightarrow> False)"

definition fpos :: "pyfloat \<Rightarrow> bool" where
  "fpos x = (case x of Finite a \<Rightarrow> 0 < a | PInf \<Rightarrow> True | _ \<Rightarrow> False)"

section \<open>Settings (\<^verbatim>\<open>config.py\<close>)\<close>

text \<open>The fields of \<open>Settings\<close> that the payment service reads. The price per page is a
  finite float.\<close>

record settings =
  stripe_public_key :: string
  stripe_webhook_secret :: string
  coinbase_api_key :: string
  coinbase_webhook_secret :: string
  app_url :: string
  price_per_page :: rat
  free_page_limit :: int

text \<open>The defaults of \<open>config.py\<close>: \<open>price_per_page = 0.10\<close> (the float nearest to one
  tenth), \<open>free_page_limit = 50\<close>.\<close>

definition default_pricing :: "settings \<Rightarrow> bool" where
  "default_pricing s \<longleftrightarrow> price_per_page s = rnd64 (1 / 10) \<and> free_page_limit s = 50"

section \<open>Pricing (\<^verbatim>\<open>PaymentService.calculate_price\<close>)\<close>

definition calculate_price :: "settings \<Rightarrow> int \<Rightarrow> exn + pyfloat" where
  "calculate_price s page_count =
     (if page_count \<le> free_page_limit s then Inr (Finite 0)
      else let extra_pages = page_count - free_page_limit s
           in case float_of_int extra_pages of
                Inl e \<Rightarrow> Inl e
              | Inr f \<Rightarrow> Inr (py_round2 (fmul f (Finite (price_per_page s)))))"

section \<open>Python values\<close>

text \<open>Parsed JSON and the dictionaries built by the service: Python's \<open>None\<close>, \<open>bool\<close>,
  \<open>int\<close>, \<open>float\<close>, \<open>str\<close>, \<open>list\<close> and \<open>dict\<close>. A dictionary is an association list
  with distinct keys in insertion order.\<close>

datatype json =
    JNull
  | JBool bool
  | JNum int
  | JFloat pyfloat
  | JStr string
  | JArr "json list"
  | JObj "(string \<times> json) list"

text \<open>Truth value testing (\<open>if v\<close>, \<open>not v\<close>).\<close>

fun truthy :: "json \<Rightarrow> bool" where
  "truthy JNull = False"
| "truthy (JBool b) = b"
| "truthy (JNum n) = (n \<noteq> 0)"
| "truthy (JFloat x) = (x \<noteq> Finite 0)"
| "truthy (JStr s) = (s \<noteq> [])"
| "truthy (JArr xs) = (xs \<noteq> [])"
| "truthy (JObj kvs) = (kvs \<noteq> [])"

text \<open>\<open>v[k]\<close>, \<open>v.get(k)\<close> and the attribute access \<open>v.k\<close> of the providers' dict-like
  objects, for a string key \<open>k\<close>.\<close>

fun py_getitem :: "json \<Rightarrow> string \<Rightarrow> exn + json" where
  "py_getitem (JObj kvs) k = (case map_of kvs k of None \<Rightarrow> Inl (KeyError k) | Some v \<Rightarrow> Inr v)"
| "py_getitem v k = Inl (TypeError ''bad subscript'')"

fun py_get :: "json \<Rightarrow> string \<Rightarrow> exn + json" where
  "py_get (JObj kvs) k = Inr (case map_of kvs k of None \<Rightarrow> JNull | Some v \<Rightarrow> v)"
| "py_get v k = Inl (AttributeError ''get'')"

fun py_getattr :: "json \<Rightarrow> string \<Rightarrow> exn + json" where
  "py_getattr (JObj kvs) k = (case map_of kvs k of None \<Rightarrow> Inl (AttributeError k) | Some v \<Rightarrow> Inr v)"
| "py_getattr v k = Inl (AttributeError k)"

text \<open>Sequencing of computations that may raise.\<close>

definition and_then :: "exn + 'a \<Rightarrow> ('a \<Rightarrow> exn + 'b) \<Rightarrow> exn + 'b" where
  "and_then x f = (case x of Inl e \<Rightarrow> Inl e | Inr v \<Rightarrow> f v)"

text \<open>\<open>{**d, **m}\<close>: the entries of \<open>m\<close> replace or extend those of \<open>d\<close>.\<close>

definition dict_merge :: "(string \<times> json) list \<Rightarrow> (string \<times> json) list \<Rightarrow> (string \<times> json) list" where
  "dict_merge d m = fold (\<lambda>(k, v). AList.update k v) m d"

text \<open>\<open>str(n)\<close> for integers, \<open>s.lower()\<close> on ASCII, and the format \<open>f"{x:.2f}"\<close>.\<close>

fun str_nat :: "nat \<Rightarrow> string" where
  "str_nat n = (if n < 10 then [char_of (48 + n)] else str_nat (n div 10) @ [char_of (48 + n mod 10)])"

declare str_nat.simps [simp del]

definition str_int :: "int \<Rightarrow> string" where
  "str_int i = (if i < 0 then CHR ''-'' # str_nat (nat (- i)) else str_nat (nat i))"

definition lower :: "string \<Rightarrow> string" where
  "lower cs = map (\<lambda>c. let n = (of_char c :: nat) in if 65 \<le> n \<and> n \<le> 90 then char_of (n + 32) else c) cs"

definition fmt_2f :: "pyfloat \<Rightarrow> string" where
  "fmt_2f x =
     (case x of
        Finite a \<Rightarrow>
          (let k = nat (rnd_half_even (\<bar>a\<bar> * 100))
           in (if a < 0 then [CHR ''-''] else []) @ str_nat (k div 100) @ [CHR ''.''] @
              [char_of (48 + k mod 100 div 10), char_of (48 + k mod 10)])
      | PInf \<Rightarrow> ''inf'' | NInf \<Rightarrow> ''-inf'' | NaN \<Rightarrow> ''nan'')"

section \<open>Data model (\<^verbatim>\<open>models.py\<close>)\<close>

text \<open>The enums and the tables \<open>users\<close>, \<open>conversions\<close> and \<open>payments\<close>. The columns keep
  their names, but the keys \<open>id\<close> are \<open>user_ident\<close>, \<open>conv_id\<close> and \<open>pay_id\<close>, and the
  columns of \<open>Conversion\<close> that \<open>Payment\<close> has too carry the prefix \<open>conv_\<close>. A
  \<open>DateTime\<close> is a number of seconds.\<close>

type_synonym time = int

datatype PaymentStatus = PENDING | COMPLETED | FAILED | REFUNDED | EXPIRED

datatype PaymentMethod = CREDIT_CARD | USDT | BTC | ETH | OTHER_CRYPTO

fun method_value :: "PaymentMethod \<Rightarrow> string" where
  "method_value CREDIT_CARD = ''credit_card''"
| "method_value USDT = ''usdt''"
| "method_value BTC = ''bitcoin''"
| "method_value ETH = ''ethereum''"
| "method_value OTHER_CRYPTO = ''other_crypto''"

text \<open>The call \<open>PaymentMethod(payment_method)\<close>: the member with that value, or
  \<open>ValueError\<close>.\<close>

definition PaymentMethod_of :: "string \<Rightarrow> exn + PaymentMethod" where
  "PaymentMethod_of v =
     (case find (\<lambda>m. method_value m = v) [CREDIT_CARD, USDT, BTC, ETH, OTHER_CRYPTO] of
        Some m \<Rightarrow> Inr m
      | None \<Rightarrow> Inl (ValueError ([CHR 0x27] @ v @ [CHR 0x27] @ '' is not a valid PaymentMethod'')))"

record user =
  user_ident :: nat

record conversion =
  conv_id :: nat
  uuid :: string
  conv_user_id :: "nat option"
  original_filename :: string
  pdf_filename :: string
  page_count :: int
  file_size :: "int option"
  is_paid :: bool
  price :: "pyfloat option"
  conv_currency :: string
  conv_created_at :: "time option"
  conv_expires_at :: "time option"

record payment =
  pay_id :: nat
  user_id :: "nat option"
  conversion_id :: nat
  payment_method :: PaymentMethod
  amount :: pyfloat
  amount_usd :: pyfloat
  currency :: string
  status :: PaymentStatus
  provider :: "string option"
  provider_payment_id :: "string option"
  provider_data :: "json option"
  crypto_address :: "string option"
  crypto_amount :: "pyfloat option"
  crypto_received :: "pyfloat option"
  tx_hash :: "string option"
  confirmations :: "int option"
  card_last4 :: "string option"
  card_brand :: "string option"
  created_at :: "time option"
  updated_at :: "time option"
  paid_at :: "time option"
  expires_at :: "time option"

text \<open>The record store behind the session \<open>db\<close>: the rows of the two tables by primary
  key, and the key the next inserted Payment gets.\<close>

record store =
  payments :: "nat \<rightharpoonup> payment"
  conversions :: "nat \<rightharpoonup> conversion"
  next_payment_id :: nat

section \<open>The providers and the environment\<close>

text \<open>What the Stripe and Coinbase Commerce clients return, as far as the service reads
  it.\<close>

record stripe_intent =
  intent_id :: string
  client_secret :: string
  intent_status :: string
  intent_dict :: json

record coinbase_charge =
  charge_id :: string
  hosted_url :: string
  addresses :: "(string \<times> string) list"
  pricing_local_amount :: string
  charge_status :: string
  charge_dict :: json

text \<open>The arguments of \<open>PaymentIntent.create\<close> and of \<open>charge.create\<close>.\<close>

record intent_request =
  ir_amount :: int
  ir_currency :: string
  ir_metadata :: "(string \<times> json) list"
  ir_description :: string
  ir_receipt_email :: "json option"
  ir_automatic_payment_methods :: bool

record charge_request =
  cr_name :: string
  cr_description :: string
  cr_pricing_type :: string
  cr_local_price_amount :: string
  cr_local_price_currency :: string
  cr_metadata :: "(string \<times> json) list"
  cr_redirect_url :: string
  cr_cancel_url :: string

text \<open>
  Everything outside the service is a parameter: the clock (a \<open>datetime\<close> in seconds,
  read once per request), the provider clients, the two signature checks,
  \<open>json.loads\<close>, \<open>float\<close> on strings, \<open>str\<close> on exceptions, and the store's comparison
  of the integer key \<open>Payment.id\<close> with a value that is not an int (\<open>None\<close>: no row can
  match).
\<close>

record world =
  now :: time
  str_of_exn :: "exn \<Rightarrow> string"
  stripe_create :: "intent_request \<Rightarrow> exn + stripe_intent"
  stripe_retrieve :: "string option \<Rightarrow> exn + stripe_intent"
  construct_event :: "string \<Rightarrow> string option \<Rightarrow> string \<Rightarrow> exn + json"
  coinbase_create :: "charge_request \<Rightarrow> exn + coinbase_charge"
  coinbase_retrieve :: "string option \<Rightarrow> exn + coinbase_charge"
  verify_payload :: "string \<Rightarrow> string option \<Rightarrow> string \<Rightarrow> exn option"
  json_loads :: "string \<Rightarrow> exn + json"
  parse_float :: "string \<Rightarrow> exn + pyfloat"
  id_of_value :: "json \<Rightarrow> nat option"

text \<open>\<open>init_payment_providers\<close>: the Coinbase client exists iff an API key is set.\<close>

definition coinbase_client :: "settings \<Rightarrow> bool" where
  "coinbase_client s \<longleftrightarrow> coinbase_api_key s \<noteq> []"

text \<open>
  The dictionaries the service returns, one constructor per \<open>return\<close>, with the values of
  the entries that are not constants, in the order of the source:
  \<^item> \<open>NoPaymentNeeded\<close>: \<open>{"status": "success", "paid": True, "amount": 0.0}\<close>;
  \<^item> \<open>CardHandle\<close>: \<open>payment_id\<close>, \<open>client_secret\<close>, \<open>publishable_key\<close>, \<open>amount\<close>,
    \<open>currency\<close>, \<open>status\<close>;
  \<^item> \<open>CryptoHandle\<close>: \<open>payment_id\<close>, \<open>checkout_url\<close>, \<open>crypto_address\<close>, \<open>crypto_amount\<close>,
    \<open>currency\<close>, \<open>status\<close>, \<open>expires_at\<close>;
  \<^item> \<open>Reconciled\<close>: \<open>payment_id\<close>, \<open>conversion_id\<close>, with \<open>status = success\<close> and
    \<open>paid = True\<close>;
  \<^item> \<open>Acknowledged\<close>: the event type, with \<open>status = success\<close>;
  \<^item> \<open>StatusCompleted\<close>: \<open>payment_id\<close>, \<open>conversion_id\<close>, \<open>amount\<close>, \<open>currency\<close>,
    \<open>paid_at\<close>, with \<open>paid = True\<close>;
  \<^item> \<open>StatusCurrent\<close>: \<open>status\<close>, \<open>paid\<close>, \<open>payment_id\<close>, \<open>conversion_id\<close>, \<open>amount\<close>,
    \<open>currency\<close>, \<open>expires_at\<close>.
\<close>

datatype response =
    NoPaymentNeeded
  | CardHandle nat string string pyfloat string PaymentStatus
  | CryptoHandle nat string "string option" "pyfloat option" string PaymentStatus "time option"
  | Reconciled nat nat
  | Acknowledged json
  | StatusCompleted nat nat pyfloat string "time option"
  | StatusCurrent PaymentStatus bool nat nat pyfloat string "time option"

text \<open>The entry \<open>'paid'\<close> of a returned dictionary, when it has one.\<close>

fun response_paid :: "response \<Rightarrow> bool option" where
  "response_paid NoPaymentNeeded = Some True"
| "response_paid (Reconciled pid cid) = Some True"
| "response_paid (StatusCompleted pid cid a c t) = Some True"
| "response_paid (StatusCurrent st paid pid cid a c t) = Some paid"
| "response_paid r = None"

section \<open>The payment service (\<^verbatim>\<open>payment_service.py\<close>)\<close>

text \<open>
  Every operation takes the environment, the settings and the store, and returns what the
  Python returns or raises together with the store as committed. A Payment or Conversion
  object of the session is passed as the record of its attributes; \<open>db.commit()\<close>
  writes it to the row with its primary key. The functions keep the names of the source,
  without the leading underscore of the private ones.
\<close>

definition commit_payment :: "store \<Rightarrow> payment \<Rightarrow> store" where
  "commit_payment db p = db\<lparr>payments := (payments db)(pay_id p \<mapsto> p)\<rparr>"

definition commit_conversion :: "store \<Rightarrow> conversion \<Rightarrow> store" where
  "commit_conversion db c = db\<lparr>conversions := (conversions db)(conv_id c \<mapsto> c)\<rparr>"

text \<open>\<open>db.add(payment); db.commit(); db.refresh(payment)\<close>: the row gets the next key.\<close>

definition add_payment :: "store \<Rightarrow> payment \<Rightarrow> store" where
  "add_payment db p = (commit_payment db p)\<lparr>next_payment_id := Suc (next_payment_id db)\<rparr>"

text \<open>The constructor call of \<open>create_payment_intent\<close>, with the column defaults of the
  model and the key assigned at the insert.\<close>

definition new_payment ::
    "world \<Rightarrow> store \<Rightarrow> user option \<Rightarrow> conversion \<Rightarrow> PaymentMethod \<Rightarrow> pyfloat \<Rightarrow> payment" where
  "new_payment w db usr conversion m a =
     \<lparr>pay_id = next_payment_id db,
      user_id = map_option user_ident usr,
      conversion_id = conv_id conversion,
      payment_method = m,
      amount = a,
      amount_usd = a,
      currency = ''USD'',
      status = PENDING,
      provider = None,
      provider_payment_id = None,
      provider_data = None,
      crypto_address = None,
      crypto_amount = None,
      crypto_received = Some (Finite 0),
      tx_hash = None,
      confirmations = Some 0,
      card_last4 = None,
      card_brand = None,
      created_at = Some (now w),
      updated_at = Some (now w),
      paid_at = None,
      expires_at = Some (now w + 24 * 3600)\<rparr>"

text \<open>The correlation metadata both adapters attach.\<close>

definition correlation_metadata ::
    "payment \<Rightarrow> conversion \<Rightarrow> (string \<times> json) list option \<Rightarrow> (string \<times> json) list" where
  "correlation_metadata payment conversion metadata =
     dict_merge
       [(''conversion_id'', JStr (str_nat (conv_id conversion))),
        (''payment_id'', JStr (str_nat (pay_id payment))),
        (''user_id'', JStr (case user_id payment of
                              None \<Rightarrow> ''anonymous''
                            | Some u \<Rightarrow> if u \<noteq> 0 then str_nat u else ''anonymous''))]
       (case metadata of None \<Rightarrow> [] | Some m \<Rightarrow> m)"

subsection \<open>Card adapter\<close>

text \<open>The amount in cents: \<open>int(payment.amount * 100)\<close>.\<close>

definition amount_in_cents :: "payment \<Rightarrow> exn + int" where
  "amount_in_cents payment = py_int (fmul (amount payment) (Finite 100))"

definition card_request ::
    "payment \<Rightarrow> conversion \<Rightarrow> (string \<times> json) list option \<Rightarrow> exn + intent_request" where
  "card_request payment conversion metadata =
     and_then (amount_in_cents payment) (\<lambda>cents. Inr
       \<lparr>ir_amount = cents,
        ir_currency = lower (currency payment),
        ir_metadata = correlation_metadata payment conversion metadata,
        ir_description = ''Payment for '' @ original_filename conversion @ '' ('' @
                         str_int (page_count conversion) @ '' pages)'',
        ir_receipt_email = (case metadata of
                              None \<Rightarrow> None
                            | Some m \<Rightarrow> if m = [] then None else map_of m ''email''),
        ir_automatic_payment_methods = True\<rparr>)"

definition process_credit_card_payment ::
    "world \<Rightarrow> settings \<Rightarrow> store \<Rightarrow> payment \<Rightarrow> conversion \<Rightarrow> (string \<times> json) list option
       \<Rightarrow> (exn + response) \<times> payment \<times> store" where
  "process_credit_card_payment w s db payment conversion metadata =
     (case and_then (card_request payment conversion metadata) (stripe_create w) of
        Inl e \<Rightarrow> (Inl e, payment, db)
      | Inr intent \<Rightarrow>
          (let payment' = payment\<lparr>provider := Some ''stripe'',
                                    provider_payment_id := Some (intent_id intent),
                                    provider_data := Some (intent_dict intent),
                                    updated_at := Some (now w)\<rparr>
           in (Inr (CardHandle (pay_id payment') (client_secret intent) (stripe_public_key s)
                      (amount payment') (currency payment') (status payment')),
               payment', commit_payment db payment')))"

subsection \<open>Crypto adapter\<close>

definition charge_data ::
    "settings \<Rightarrow> payment \<Rightarrow> conversion \<Rightarrow> (string \<times> json) list option \<Rightarrow> charge_request" where
  "charge_data s payment conversion metadata =
     \<lparr>cr_name = ''PDF Conversion: '' @ original_filename conversion,
      cr_description = ''Payment for '' @ str_int (page_count conversion) @
                       '' page document conversion'',
      cr_pricing_type = ''fixed_price'',
      cr_local_price_amount = fmt_2f (amount payment),
      cr_local_price_currency = currency payment,
      cr_metadata = correlation_metadata payment conversion metadata,
      cr_redirect_url = app_url s @ ''/payment/complete'',
      cr_cancel_url = app_url s @ ''/payment/cancel''\<rparr>"

text \<open>\<open>a or b\<close> on optional strings.\<close>

definition py_or :: "string option \<Rightarrow> string option \<Rightarrow> string option" where
  "py_or a b = (case a of None \<Rightarrow> b | Some x \<Rightarrow> if x \<noteq> [] then Some x else b)"

definition process_crypto_payment ::
    "world \<Rightarrow> settings \<Rightarrow> store \<Rightarrow> payment \<Rightarrow> conversion \<Rightarrow> (string \<times> json) list option
       \<Rightarrow> (exn + response) \<times> payment \<times> store" where
  "process_crypto_payment w s db payment conversion metadata =
     (if \<not> coinbase_client s
      then (Inl (HTTPException 500 ''Cryptocurrency payments are not configured''), payment, db)
      else case coinbase_create w (charge_data s payment conversion metadata) of
        Inl e \<Rightarrow> (Inl e, payment, db)
      | Inr charge \<Rightarrow>
          (let p1 = payment\<lparr>provider := Some ''coinbase'',
                              provider_payment_id := Some (charge_id charge),
                              crypto_address := py_or (map_of (addresses charge) ''bitcoin'')
                                                      (map_of (addresses charge) ''ethereum'')\<rparr>
           in case parse_float w (pricing_local_amount charge) of
                Inl e \<Rightarrow> (Inl e, p1, db)
              | Inr x \<Rightarrow>
                  (let p2 = p1\<lparr>crypto_amount := Some x,
                                 provider_data := Some (charge_dict charge),
                                 updated_at := Some (now w)\<rparr>
                   in (Inr (CryptoHandle (pay_id p2) (hosted_url charge) (crypto_address p2)
                              (crypto_amount p2) (currency p2) (status p2) (expires_at p2)),
                       p2, commit_payment db p2))))"

subsection \<open>Payment intent factory\<close>

text \<open>The dispatch inside the \<open>try\<close> of \<open>create_payment_intent\<close>.\<close>

definition dispatch ::
    "world \<Rightarrow> settings \<Rightarrow> store \<Rightarrow> payment \<Rightarrow> conversion \<Rightarrow> string
       \<Rightarrow> (string \<times> json) list option \<Rightarrow> (exn + response) \<times> payment \<times> store" where
  "dispatch w s db payment conversion method metadata =
     (if method = method_value CREDIT_CARD
      then process_credit_card_payment w s db payment conversion metadata
      else if method \<in> set (map method_value [BTC, ETH, USDT, OTHER_CRYPTO])
      then process_crypto_payment w s db payment conversion metadata
      else (Inl (HTTPException 400 (''Unsupported payment method: '' @ method)),
            payment, db))"

definition create_payment_intent ::
    "world \<Rightarrow> settings \<Rightarrow> store \<Rightarrow> conversion \<Rightarrow> string \<Rightarrow> user option
       \<Rightarrow> (string \<times> json) list option \<Rightarrow> (exn + response) \<times> store" where
  "create_payment_intent w s db conversion method usr metadata =
     (if is_paid conversion
      then (Inl (HTTPException 400 ''This conversion has already been paid for''), db)
      else case calculate_price s (page_count conversion) of
        Inl e \<Rightarrow> (Inl e, db)
      | Inr amnt \<Rightarrow>
          if fle0 amnt
          then (Inr NoPaymentNeeded, commit_conversion db (conversion\<lparr>is_paid := True\<rparr>))
          else case PaymentMethod_of method of
            Inl e \<Rightarrow> (Inl e, db)
          | Inr m \<Rightarrow>
              (let payment = new_payment w db usr conversion m amnt;
                   db1 = add_payment db payment
               in case dispatch w s db1 payment conversion method metadata of
                    (Inr r, payment', db2) \<Rightarrow> (Inr r, db2)
                  | (Inl e, payment', db2) \<Rightarrow>
                      (Inl (HTTPException 500 (''Error processing payment: '' @ str_of_exn w e)),
                       commit_payment db2
                         (payment'\<lparr>status := FAILED,
                                   provider_data := Some (JObj [(''error'', JStr (str_of_exn w e))]),
                                   updated_at := Some (now w)\<rparr>))))"

subsection \<open>Reconciliation\<close>

text \<open>\<open>db.query(Payment).filter(Payment.id == payment_id).first()\<close>. The status resolver
  passes an int, which is compared with the key as it is; for any other value (the
  webhooks pass what the event's metadata holds) the comparison of the store decides.\<close>

definition key_of :: "world \<Rightarrow> json \<Rightarrow> nat option" where
  "key_of w v =
     (case v of
        JNum n \<Rightarrow> if 0 \<le> n then Some (nat n) else None
      | _ \<Rightarrow> id_of_value w v)"

definition find_payment :: "world \<Rightarrow> store \<Rightarrow> json \<Rightarrow> payment option" where
  "find_payment w db payment_id =
     (case key_of w payment_id of None \<Rightarrow> None | Some k \<Rightarrow> payments db k)"

text \<open>The assignment \<open>conversion.updated_at = ...\<close> of the source sets an attribute that
  is no column of \<open>Conversion\<close>; it does not reach the store.\<close>

definition process_successful_payment ::
    "world \<Rightarrow> store \<Rightarrow> json \<Rightarrow> json option \<Rightarrow> (exn + response) \<times> store" where
  "process_successful_payment w db payment_id prov_data =
     (if \<not> truthy payment_id then (Inl (HTTPException 400 ''No payment ID provided''), db)
      else case find_payment w db payment_id of
        None \<Rightarrow> (Inl (HTTPException 404 ''Payment not found''), db)
      | Some payment \<Rightarrow>
          (let payment' = payment\<lparr>status := COMPLETED,
                                    paid_at := Some (now w),
                                    updated_at := Some (now w),
                                    provider_data :=
                                      (case prov_data of
                                         None \<Rightarrow> provider_data payment
                                       | Some d \<Rightarrow> if truthy d then Some d
                                                   else provider_data payment)\<rparr>;
               db1 = commit_payment db payment';
               db2 = (case conversions db (conversion_id payment) of
                        None \<Rightarrow> db1
                      | Some conversion \<Rightarrow> commit_conversion db1 (conversion\<lparr>is_paid := True\<rparr>))
           in (Inr (Reconciled (pay_id payment) (conversion_id payment)), db2)))"

subsection \<open>Webhooks\<close>

definition handle_stripe_webhook ::
    "world \<Rightarrow> settings \<Rightarrow> store \<Rightarrow> string \<Rightarrow> string option \<Rightarrow> (exn + response) \<times> store" where
  "handle_stripe_webhook w s db payload signature =
     (case construct_event w payload signature (stripe_webhook_secret s) of
        Inl e \<Rightarrow>
          (case e of
             ValueError m \<Rightarrow> (Inl (HTTPException 400 (''Invalid payload: '' @ str_of_exn w e)), db)
           | JSONDecodeError m \<Rightarrow>
               (Inl (HTTPException 400 (''Invalid payload: '' @ str_of_exn w e)), db)
           | SignatureVerificationError m \<Rightarrow>
               (Inl (HTTPException 400 (''Invalid signature: '' @ str_of_exn w e)), db)
           | _ \<Rightarrow> (Inl e, db))
      | Inr event \<Rightarrow>
          (case py_getitem event ''type'' of
             Inl e \<Rightarrow> (Inl e, db)
           | Inr ty \<Rightarrow>
               if ty = JStr ''payment_intent.succeeded''
               then (case and_then (py_getitem event ''data'') (\<lambda>d. py_getitem d ''object'') of
                       Inl e \<Rightarrow> (Inl e, db)
                     | Inr payment_intent \<Rightarrow>
                         (case and_then (py_getattr payment_intent ''metadata'')
                                 (\<lambda>m. py_get m ''payment_id'') of
                            Inl e \<Rightarrow> (Inl e, db)
                          | Inr pid \<Rightarrow>
                              process_successful_payment w db pid (Some payment_intent)))
               else (Inr (Acknowledged ty), db)))"

text \<open>The body of the \<open>try\<close> of \<open>_handle_coinbase_webhook\<close>, and the handler with its
  \<open>except json.JSONDecodeError\<close>.\<close>

definition coinbase_webhook_body ::
    "world \<Rightarrow> settings \<Rightarrow> store \<Rightarrow> string \<Rightarrow> string option \<Rightarrow> (exn + response) \<times> store" where
  "coinbase_webhook_body w s db payload signature =
     (case json_loads w payload of
        Inl e \<Rightarrow> (Inl e, db)
      | Inr request_data \<Rightarrow>
          (case verify_payload w payload signature (coinbase_webhook_secret s) of
             Some e \<Rightarrow>
               (case e of
                  WebhookInvalidPayload m \<Rightarrow>
                    (Inl (HTTPException 400
                           (''Webhook verification failed: '' @ str_of_exn w e)), db)
                | WebhookInvalidSignature m \<Rightarrow>
                    (Inl (HTTPException 400
                           (''Webhook verification failed: '' @ str_of_exn w e)), db)
                | _ \<Rightarrow> (Inl e, db))
           | None \<Rightarrow>
               (case py_get request_data ''event'' of
                  Inl e \<Rightarrow> (Inl e, db)
                | Inr event \<Rightarrow>
                    if \<not> truthy event
                    then (Inl (HTTPException 400 ''No event in payload''), db)
                    else (case py_getitem event ''type'' of
                            Inl e \<Rightarrow> (Inl e, db)
                          | Inr ty \<Rightarrow>
                              if ty = JStr ''charge:confirmed'' \<or> ty = JStr ''charge:resolved''
                              then (case py_getitem event ''data'' of
                                      Inl e \<Rightarrow> (Inl e, db)
                                    | Inr charge \<Rightarrow>
                                        (case and_then (py_getitem charge ''metadata'')
                                                (\<lambda>m. py_get m ''payment_id'') of
                                           Inl e \<Rightarrow> (Inl e, db)
                                         | Inr pid \<Rightarrow>
                                             process_successful_payment w db pid (Some charge)))
                              else (Inr (Acknowledged ty), db)))))"

definition handle_coinbase_webhook ::
    "world \<Rightarrow> settings \<Rightarrow> store \<Rightarrow> string \<Rightarrow> string option \<Rightarrow> (exn + response) \<times> store" where
  "handle_coinbase_webhook w s db payload signature =
     (case coinbase_webhook_body w s db payload signature of
        (Inl (JSONDecodeError m), db') \<Rightarrow> (Inl (HTTPException 400 ''Invalid JSON payload''), db')
      | r \<Rightarrow> r)"

definition handle_webhook ::
    "world \<Rightarrow> settings \<Rightarrow> store \<Rightarrow> string \<Rightarrow> string \<Rightarrow> string option
       \<Rightarrow> (exn + response) \<times> store" where
  "handle_webhook w s db prov payload signature =
     (case
        (if prov = ''stripe'' then handle_stripe_webhook w s db payload signature
         else if prov = ''coinbase'' then handle_coinbase_webhook w s db payload signature
         else (Inl (HTTPException 400 (''Unsupported payment provider: '' @ prov)), db))
      of
        (Inl e, db') \<Rightarrow>
          (Inl (HTTPException 400 (''Error processing webhook: '' @ str_of_exn w e)), db')
      | r \<Rightarrow> r)"

subsection \<open>Status resolver\<close>

text \<open>The \<open>try\<close> block of \<open>get_payment_status\<close>: \<open>Some\<close> when it reaches a \<open>return\<close> or
  raises, \<open>None\<close> when it falls through. The timestamps of the returned dictionaries are
  kept as they are stored, not rendered by \<open>isoformat\<close>.\<close>

definition poll_provider ::
    "world \<Rightarrow> settings \<Rightarrow> store \<Rightarrow> nat \<Rightarrow> payment \<Rightarrow> ((exn + response) \<times> store) option" where
  "poll_provider w s db payment_id payment =
     (if provider payment = Some ''stripe''
      then (case stripe_retrieve w (provider_payment_id payment) of
              Inl e \<Rightarrow> Some (Inl e, db)
            | Inr intent \<Rightarrow>
                if intent_status intent = ''succeeded''
                then Some (process_successful_payment w db (JNum (int payment_id))
                             (Some (intent_dict intent)))
                else None)
      else if provider payment = Some ''coinbase''
      then (if \<not> coinbase_client s then Some (Inl (AttributeError ''charge''), db)
            else case coinbase_retrieve w (provider_payment_id payment) of
              Inl e \<Rightarrow> Some (Inl e, db)
            | Inr charge \<Rightarrow>
                if charge_status charge \<in> set [''CONFIRMED'', ''RESOLVED'']
                then Some (process_successful_payment w db (JNum (int payment_id))
                             (Some (charge_dict charge)))
                else None)
      else None)"

definition get_payment_status ::
    "world \<Rightarrow> settings \<Rightarrow> store \<Rightarrow> nat \<Rightarrow> (exn + response) \<times> store" where
  "get_payment_status w s db payment_id =
     (case payments db payment_id of
        None \<Rightarrow> (Inl (HTTPException 404 ''Payment not found''), db)
      | Some payment \<Rightarrow>
          if status payment = COMPLETED
          then (Inr (StatusCompleted (pay_id payment) (conversion_id payment) (amount payment)
                       (currency payment) (paid_at payment)), db)
          else (case poll_provider w s db payment_id payment of
                  Some (Inr r, db') \<Rightarrow> (Inr r, db')
                | Some (Inl e, db') \<Rightarrow>
                    (Inr (StatusCurrent (status payment) (status payment = COMPLETED)
                            (pay_id payment) (conversion_id payment) (amount payment)
                            (currency payment) (expires_at payment)), db')
                | None \<Rightarrow>
                    (Inr (StatusCurrent (status payment) (status payment = COMPLETED)
                            (pay_id payment) (conversion_id payment) (amount payment)
                            (currency payment) (expires_at payment)), db)))"

section \<open>Sequences of operations\<close>

text \<open>The three operations of the service as a caller issues them: the caller of
  \<open>create_payment_intent\<close> loads the Conversion by key first, and nothing happens when
  there is none. Each operation of a run meets its own environment.\<close>

datatype operation =
    CreateIntent nat string "user option" "(string \<times> json) list option"
  | HandleWebhook string string "string option"
  | GetPaymentStatus nat

fun step :: "settings \<Rightarrow> world \<times> operation \<Rightarrow> store \<Rightarrow> store" where
  "step s (w, CreateIntent cid method usr metadata) db =
     (case conversions db cid of
        None \<Rightarrow> db
      | Some conversion \<Rightarrow> snd (create_payment_intent w s db conversion method usr metadata))"
| "step s (w, HandleWebhook prov payload signature) db =
     snd (handle_webhook w s db prov payload signature)"
| "step s (w, GetPaymentStatus payment_id) db = snd (get_payment_status w s db payment_id)"

fun run :: "settings \<Rightarrow> (world \<times> operation) list \<Rightarrow> store \<Rightarrow> store" where
  "run s [] db = db"
| "run s (x # xs) db = run s xs (step s x db)"

text \<open>A store is well formed when every row sits under its own primary key and the
  keys handed out so far are below the next one.\<close>

definition wf_store :: "store \<Rightarrow> bool" where
  "wf_store db \<longleftrightarrow>
     (\<forall>k p. payments db k = Some p \<longrightarrow> pay_id p = k \<and> k < next_payment_id db) \<and>
     (\<forall>k c. conversions db k = Some c \<longrightarrow> conv_id c = k)"

text \<open>How the Payments of a store may differ after operations of the service: a row that
  was there is still there, in the same status or COMPLETED; a row that was not there is
  PENDING, FAILED or COMPLETED.\<close>

definition evolves :: "store \<Rightarrow> store \<Rightarrow> bool" where
  "evolves db db' \<longleftrightarrow>
     (\<forall>k p. payments db k = Some p \<longrightarrow>
        (\<exists>p'. payments db' k = Some p' \<and> (status p' = status p \<or> status p' = COMPLETED))) \<and>
     (\<forall>k p'. payments db k = None \<longrightarrow> payments db' k = Some p' \<longrightarrow>
        status p' = PENDING \<or> status p' = FAILED \<or> status p' = COMPLETED)"

section \<open>Sample data\<close>

definition sample_settings :: settings where
  "sample_settings =
     \<lparr>stripe_public_key = ''pk_test'', stripe_webhook_secret = ''whsec'',
      coinbase_api_key = [], coinbase_webhook_secret = ''cbsec'',
      app_url = ''http://localhost:8000'',
      price_per_page = 3602879701896397 / 36028797018963968, free_page_limit = 50\<rparr>"

text \<open>A \<open>payment_intent.succeeded\<close> event for the Payment with key 1.\<close>

definition sample_intent :: json where
  "sample_intent = JObj [(''id'', JStr ''pi_1''), (''metadata'', JObj [(''payment_id'', JStr ''1'')])]"

definition sample_event :: json where
  "sample_event =
     JObj [(''type'', JStr ''payment_intent.succeeded''), (''data'', JObj [(''object'', sample_intent)])]"

fun sample_str :: "exn \<Rightarrow> string" where
  "sample_str (HTTPException c d) = str_nat c @ '': '' @ d"
| "sample_str (ValueError m) = m"
| "sample_str (KeyError m) = m"
| "sample_str (TypeError m) = m"
| "sample_str (AttributeError m) = m"
| "sample_str (OverflowError m) = m"
| "sample_str (JSONDecodeError m) = m"
| "sample_str (SignatureVerificationError m) = m"
| "sample_str (WebhookInvalidPayload m) = m"
| "sample_str (WebhookInvalidSignature m) = m"
| "sample_str (ProviderError m) = m"

text \<open>An environment at clock reading \<open>t\<close>: signatures verify iff the header is
  \<open>good\<close>, a verified Stripe body is the sample event, the providers cannot be polled.\<close>

definition sample_world :: "time \<Rightarrow> world" where
  "sample_world t =
     \<lparr>now = t,
      str_of_exn = sample_str,
      stripe_create = (\<lambda>req. Inr \<lparr>intent_id = ''pi_1'', client_secret = ''pi_1_secret'',
                                   intent_status = ''requires_payment_method'',
                                   intent_dict = JObj [(''id'', JStr ''pi_1''),
                                                       (''amount'', JNum (ir_amount req))]\<rparr>),
      stripe_retrieve = (\<lambda>r. Inl (ProviderError ''connection refused'')),
      construct_event = (\<lambda>payload signature secret.
                           if signature = Some ''good'' then Inr sample_event
                           else Inl (SignatureVerificationError ''no valid signature'')),
      coinbase_create = (\<lambda>req. Inl (ProviderError ''connection refused'')),
      coinbase_retrieve = (\<lambda>r. Inl (ProviderError ''connection refused'')),
      verify_payload = (\<lambda>payload signature secret.
                          if signature = Some ''good'' then None
                          else Some (WebhookInvalidSignature ''signature mismatch'')),
      json_loads = (\<lambda>payload. if payload = ''{}'' then Inr (JObj [])
                               else Inl (JSONDecodeError ''Expecting value'')),
      parse_float = (\<lambda>x. Inl (ValueError ''could not convert string to float'')),
      id_of_value = (\<lambda>v. if v = JStr ''1'' then Some 1 else None)\<rparr>"

definition sample_conversion :: "int \<Rightarrow> bool \<Rightarrow> conversion" where
  "sample_conversion pages paid =
     \<lparr>conv_id = 7, uuid = ''c0ffee'', conv_user_id = None, original_filename = ''a.docx'',
      pdf_filename = ''a.pdf'', page_count = pages, file_size = None, is_paid = paid,
      price = None, conv_currency = ''USD'', conv_created_at = None, conv_expires_at = None\<rparr>"

definition sample_payment :: "PaymentStatus \<Rightarrow> payment" where
  "sample_payment st =
     (new_payment (sample_world 100) \<lparr>payments = Map.empty, conversions = Map.empty,
                                      next_payment_id = 1\<rparr>
        None (sample_conversion 91 False) CREDIT_CARD (Finite (41 / 10)))
     \<lparr>status := st, provider := Some ''stripe'', provider_payment_id := Some ''pi_1'',
      paid_at := (if st = COMPLETED then Some 150 else None)\<rparr>"

text \<open>A store with one Conversion (key 7) and no Payment, and one with a Payment (key 1)
  for it in a given status.\<close>

definition empty_store :: "int \<Rightarrow> bool \<Rightarrow> store" where
  "empty_store pages paid =
     \<lparr>payments = Map.empty, conversions = [7 \<mapsto> sample_conversion pages paid],
      next_payment_id = 1\<rparr>"

definition sample_store :: "PaymentStatus \<Rightarrow> store" where
  "sample_store st =
     \<lparr>payments = [1 \<mapsto> sample_payment st],
      conversions = [7 \<mapsto> sample_conversion 91 (st = COMPLETED)],
      next_payment_id = 2\<rparr>"

section \<open>Errors leave the store as it was\<close>

lemma psp_error_keeps_store:
  "process_successful_payment w db pid d = (Inl e, db') \<Longrightarrow> db' = db"
  by (auto simp: process_successful_payment_def Let_def split: if_splits option.splits)

lemma stripe_error_keeps_store:
  "handle_stripe_webhook w s db payload sg = (Inl e, db') \<Longrightarrow> db' = db"
  by (auto simp: handle_stripe_webhook_def and_then_def
           split: sum.splits exn.splits if_splits dest: psp_error_keeps_store)

lemma coinbase_body_error_keeps_store:
  "coinbase_webhook_body w s db payload sg = (Inl e, db') \<Longrightarrow> db' = db"
  by (auto simp: coinbase_webhook_body_def and_then_def
           split: sum.splits exn.splits if_splits option.splits
           dest: psp_error_keeps_store)

lemma coinbase_error_keeps_store:
  assumes "handle_coinbase_webhook w s db payload sg = (Inl e, db')"
  shows "db' = db"
proof (cases "coinbase_webhook_body w s db payload sg")
  case (Pair r db1)
  show ?thesis
  proof (cases r)
    case (Inl e1)
    with Pair coinbase_body_error_keeps_store have "db1 = db" by blast
    with assms Pair Inl show ?thesis
      by (cases e1) (simp_all add: handle_coinbase_webhook_def)
  next
    case (Inr v)
    with assms Pair show ?thesis
      by (simp add: handle_coinbase_webhook_def)
  qed
qed

lemma handle_webhook_error:
  "handle_webhook w s db prov payload sg = (Inl e, db') \<Longrightarrow>
     db' = db \<and> (\<exists>detail. e = HTTPException 400 detail)"
  by (auto simp: handle_webhook_def split: sum.splits if_splits prod.splits
           dest: stripe_error_keeps_store coinbase_error_keeps_store)

text \<open>What the two handlers do with an event that fails verification.\<close>

lemma stripe_rejects:
  "construct_event w payload sg (stripe_webhook_secret s) = Inl e \<Longrightarrow>
     \<exists>e'. handle_stripe_webhook w s db payload sg = (Inl e', db)"
  by (cases e) (simp_all add: handle_stripe_webhook_def)

lemma coinbase_rejects_json:
  "json_loads w payload = Inl e \<Longrightarrow>
     \<exists>e'. handle_coinbase_webhook w s db payload sg = (Inl e', db)"
  by (cases e) (simp_all add: handle_coinbase_webhook_def coinbase_webhook_body_def)

lemma coinbase_rejects_signature:
  assumes "verify_payload w payload sg (coinbase_webhook_secret s) = Some e"
  shows "\<exists>e'. handle_coinbase_webhook w s db payload sg = (Inl e', db)"
proof (cases "json_loads w payload")
  case (Inl e0)
  then show ?thesis by (rule coinbase_rejects_json)
next
  case (Inr request_data)
  with assms show ?thesis
    by (cases e) (simp_all add: handle_coinbase_webhook_def coinbase_webhook_body_def)
qed

section \<open>Webhooks\<close>

text \<open>
  C3. A webhook whose signature does not verify, or whose payload is malformed, is
  rejected with status 400 and the store is returned as it was, whatever the payload
  holds. Card path: \<open>construct_event\<close> raises (any exception, so both
  \<open>SignatureVerificationError\<close> and the \<open>ValueError\<close> of a malformed payload). Crypto
  path: \<open>json.loads\<close> raises, or \<open>verify_payload\<close> raises.
\<close>

theorem invalid_webhook_rejected_without_mutation:
  assumes "prov = ''stripe'' \<and> construct_event w payload sg (stripe_webhook_secret s) = Inl e
         \<or> prov = ''coinbase'' \<and> (json_loads w payload = Inl e
              \<or> verify_payload w payload sg (coinbase_webhook_secret s) = Some e)"
  shows "\<exists>detail. handle_webhook w s db prov payload sg = (Inl (HTTPException 400 detail), db)"
proof -
  consider (st) "prov = ''stripe''" "construct_event w payload sg (stripe_webhook_secret s) = Inl e"
    | (cj) "prov = ''coinbase''" "json_loads w payload = Inl e"
    | (cs) "prov = ''coinbase''" "verify_payload w payload sg (coinbase_webhook_secret s) = Some e"
    using assms by blast
  then show ?thesis
  proof cases
    case st
    from stripe_rejects [OF st(2)] obtain e' where
      "handle_stripe_webhook w s db payload sg = (Inl e', db)" by blast
    with st(1) show ?thesis by (simp add: handle_webhook_def)
  next
    case cj
    from coinbase_rejects_json [OF cj(2)] obtain e' where
      "handle_coinbase_webhook w s db payload sg = (Inl e', db)" by blast
    with cj(1) show ?thesis by (simp add: handle_webhook_def)
  next
    case cs
    from coinbase_rejects_signature [OF cs(2)] obtain e' where
      "handle_coinbase_webhook w s db payload sg = (Inl e', db)" by blast
    with cs(1) show ?thesis by (simp add: handle_webhook_def)
  qed
qed

theorem invalid_webhook_rejected_witness:
  "construct_event (sample_world 200) ''forged body'' (Some ''forged'')
       (stripe_webhook_secret sample_settings) = Inl (SignatureVerificationError ''no valid signature'')
   \<and> (\<exists>detail. handle_webhook (sample_world 200) sample_settings (sample_store PENDING)
                   ''stripe'' ''forged body'' (Some ''forged'')
                 = (Inl (HTTPException 400 detail), sample_store PENDING))
   \<and> verify_payload (sample_world 200) ''{}'' None
       (coinbase_webhook_secret sample_settings) = Some (WebhookInvalidSignature ''signature mismatch'')
   \<and> (\<exists>detail. handle_webhook (sample_world 200) sample_settings (sample_store PENDING)
                   ''coinbase'' ''{}'' None
                 = (Inl (HTTPException 400 detail), sample_store PENDING))"
proof -
  have a: "construct_event (sample_world 200) ''forged body'' (Some ''forged'')
       (stripe_webhook_secret sample_settings) = Inl (SignatureVerificationError ''no valid signature'')"
    by (simp add: sample_world_def)
  have b: "verify_payload (sample_world 200) ''{}'' None
       (coinbase_webhook_secret sample_settings) = Some (WebhookInvalidSignature ''signature mismatch'')"
    by (simp add: sample_world_def)
  show ?thesis
    using a b
      invalid_webhook_rejected_without_mutation
        [of "''stripe''" "sample_world 200" "''forged body''" "Some ''forged''"
            sample_settings "SignatureVerificationError ''no valid signature''"
            "sample_store PENDING"]
      invalid_webhook_rejected_without_mutation
        [of "''coinbase''" "sample_world 200" "''{}''" None
            sample_settings "WebhookInvalidSignature ''signature mismatch''"
            "sample_store PENDING"]
    by simp
qed

text \<open>
  C8. Whatever the provider name, the body and the signature header, and whatever the
  environment answers, \<open>handle_webhook\<close> either returns or raises an \<open>HTTPException\<close>
  with status 400: every exception raised while handling is replaced by that one.
\<close>

theorem handle_webhook_raises_only_400:
  "fst (handle_webhook w s db prov payload sg) = Inl e \<Longrightarrow> \<exists>detail. e = HTTPException 400 detail"
  using handle_webhook_error [of w s db prov payload sg e "snd (handle_webhook w s db prov payload sg)"]
  by (cases "handle_webhook w s db prov payload sg") simp

theorem handle_webhook_raises_only_400_witness:
  "fst (handle_webhook (sample_world 200) sample_settings (sample_store PENDING)
          ''paypal'' ''not json'' None)
     = Inl (HTTPException 400 (''Error processing webhook: '' @
              sample_str (HTTPException 400 ''Unsupported payment provider: paypal'')))
   \<and> (\<exists>detail. HTTPException 400 (''Error processing webhook: '' @
              sample_str (HTTPException 400 ''Unsupported payment provider: paypal''))
        = HTTPException 400 detail)"
proof -
  have a: "fst (handle_webhook (sample_world 200) sample_settings (sample_store PENDING)
          ''paypal'' ''not json'' None)
     = Inl (HTTPException 400 (''Error processing webhook: '' @
              sample_str (HTTPException 400 ''Unsupported payment provider: paypal'')))"
    by (simp add: handle_webhook_def sample_world_def)
  show ?thesis
    using a handle_webhook_raises_only_400 [OF a] by simp
qed

section \<open>Reconciliation\<close>

text \<open>
  C10. When the Payment named by the event exists and no Conversion has the key in its
  \<open>conversion_id\<close>, \<open>_process_successful_payment\<close> raises nothing: it returns the success
  dictionary with \<open>paid = True\<close>, the Payment is stored as COMPLETED, and the table of
  Conversions is unchanged, so no Conversion is marked paid.
\<close>

theorem reconcile_without_conversion:
  assumes "truthy pid"
      and "find_payment w db pid = Some p"
      and "conversions db (conversion_id p) = None"
  shows "\<exists>db'. process_successful_payment w db pid d
                 = (Inr (Reconciled (pay_id p) (conversion_id p)), db')
             \<and> response_paid (Reconciled (pay_id p) (conversion_id p)) = Some True
             \<and> map_option status (payments db' (pay_id p)) = Some COMPLETED
             \<and> conversions db' = conversions db"
  using assms
  by (simp add: process_successful_payment_def commit_payment_def Let_def)

theorem reconcile_without_conversion_witness:
  "truthy (JStr ''1'')
   \<and> find_payment (sample_world 200) ((sample_store PENDING)\<lparr>conversions := Map.empty\<rparr>) (JStr ''1'')
       = Some (sample_payment PENDING)
   \<and> conversions ((sample_store PENDING)\<lparr>conversions := Map.empty\<rparr>)
       (conversion_id (sample_payment PENDING)) = None
   \<and> (\<exists>db'. process_successful_payment (sample_world 200)
                 ((sample_store PENDING)\<lparr>conversions := Map.empty\<rparr>) (JStr ''1'') (Some sample_intent)
               = (Inr (Reconciled 1 7), db')
             \<and> map_option status (payments db' 1) = Some COMPLETED
             \<and> conversions db' = Map.empty)"
proof -
  have a: "truthy (JStr ''1'')" by simp
  have b: "find_payment (sample_world 200) ((sample_store PENDING)\<lparr>conversions := Map.empty\<rparr>) (JStr ''1'')
       = Some (sample_payment PENDING)"
    by (simp add: find_payment_def key_of_def sample_world_def sample_store_def)
  have c: "conversions ((sample_store PENDING)\<lparr>conversions := Map.empty\<rparr>)
       (conversion_id (sample_payment PENDING)) = None"
    by simp
  have d: "pay_id (sample_payment PENDING) = 1" "conversion_id (sample_payment PENDING) = 7"
    by (simp_all add: sample_payment_def new_payment_def sample_conversion_def)
  show ?thesis
    using a b c reconcile_without_conversion [OF a b c, of "Some sample_intent"]
    by (simp add: d)
qed

section \<open>Pricing at the sample settings\<close>

lemma price_91: "calculate_price sample_settings 91 = Inr (Finite (2308094809027379 / 562949953421312))"
  by code_simp

lemma price_10: "calculate_price sample_settings 10 = Inr (Finite 0)"
  by (simp add: calculate_price_def sample_settings_def)

lemma literal_4_1: "rnd64 (41 / 10) = 2308094809027379 / 562949953421312"
  by code_simp

lemma cents_of_4_1:
  "py_int (fmul (Finite (2308094809027379 / 562949953421312)) (Finite 100)) = Inr 409"
  by code_simp

lemma sample_conversion_simps:
  "page_count (sample_conversion n b) = n" "is_paid (sample_conversion n b) = b"
  "conv_id (sample_conversion n b) = 7"
  by (simp_all add: sample_conversion_def)

lemma sample_settings_simps:
  "\<not> coinbase_client sample_settings"
  "free_page_limit sample_settings = 50"
  "stripe_webhook_secret sample_settings = ''whsec''"
  by (simp_all add: coinbase_client_def sample_settings_def)

lemma sample_world_simps:
  "now (sample_world t) = t"
  "str_of_exn (sample_world t) = sample_str"
  "key_of (sample_world t) (JStr ''1'') = Some 1"
  "construct_event (sample_world t) payload (Some ''good'') secret = Inr sample_event"
  by (simp_all add: sample_world_def key_of_def)

section \<open>The store after a commit\<close>

lemma commit_payment_simps:
  "payments (commit_payment db p) = (payments db)(pay_id p \<mapsto> p)"
  "conversions (commit_payment db p) = conversions db"
  "next_payment_id (commit_payment db p) = next_payment_id db"
  by (simp_all add: commit_payment_def)

lemma commit_conversion_simps:
  "payments (commit_conversion db c) = payments db"
  "conversions (commit_conversion db c) = (conversions db)(conv_id c \<mapsto> c)"
  "next_payment_id (commit_conversion db c) = next_payment_id db"
  by (simp_all add: commit_conversion_def)

lemma add_payment_simps:
  "payments (add_payment db p) = (payments db)(pay_id p \<mapsto> p)"
  "conversions (add_payment db p) = conversions db"
  "next_payment_id (add_payment db p) = Suc (next_payment_id db)"
  by (simp_all add: add_payment_def commit_payment_def)

lemma commit_after_add:
  "pay_id p' = pay_id p \<Longrightarrow> commit_payment (add_payment db p) p' = add_payment db p'"
  by (simp add: add_payment_def commit_payment_def)

lemma new_payment_simps:
  "pay_id (new_payment w db u c m a) = next_payment_id db"
  "amount (new_payment w db u c m a) = a"
  "amount_usd (new_payment w db u c m a) = a"
  "status (new_payment w db u c m a) = PENDING"
  "conversion_id (new_payment w db u c m a) = conv_id c"
  by (simp_all add: new_payment_def)

section \<open>Payment intent factory\<close>

text \<open>
  C7. The code at an unsupported method. For an unpaid Conversion of 91 pages and the
  method \<open>paypal\<close>, \<open>create_payment_intent\<close> raises the \<open>ValueError\<close> of the enum
  constructor, not an \<open>HTTPException\<close> with status 400, and the store is unchanged. For
  a Conversion of 10 pages (price 0) the same method is not rejected at all.
\<close>

theorem unsupported_method_raises_value_error:
  "create_payment_intent (sample_world 200) sample_settings (empty_store 91 False)
       (sample_conversion 91 False) ''paypal'' None None
     = (Inl (ValueError ([CHR 0x27] @ ''paypal'' @ [CHR 0x27] @ '' is not a valid PaymentMethod'')),
        empty_store 91 False)
   \<and> fst (create_payment_intent (sample_world 200) sample_settings (empty_store 10 False)
       (sample_conversion 10 False) ''paypal'' None None) = Inr NoPaymentNeeded"
  by (simp add: create_payment_intent_def sample_conversion_simps price_91 price_10 fle0_def
        PaymentMethod_of_def)

text \<open>
  C6, as stated, fails: with no Coinbase API key, \<open>create_payment_intent\<close> for the method
  \<open>bitcoin\<close> on an unpaid Conversion of 91 pages raises an \<open>HTTPException\<close> with status
  500, and the store, which held no Payment, holds one afterwards, in status FAILED.
\<close>

theorem crypto_unconfigured_counterexample:
  "\<not> coinbase_client sample_settings
   \<and> payments (empty_store 91 False) 1 = None
   \<and> fst (create_payment_intent (sample_world 200) sample_settings (empty_store 91 False)
            (sample_conversion 91 False) ''bitcoin'' None None)
       = Inl (HTTPException 500 (''Error processing payment: '' @
                sample_str (HTTPException 500 ''Cryptocurrency payments are not configured'')))
   \<and> map_option status
        (payments (snd (create_payment_intent (sample_world 200) sample_settings
                          (empty_store 91 False) (sample_conversion 91 False)
                          ''bitcoin'' None None)) 1)
       = Some FAILED"
  by (simp add: create_payment_intent_def sample_conversion_simps price_91 fle0_def
        PaymentMethod_of_def dispatch_def process_crypto_payment_def sample_settings_simps
        commit_payment_simps add_payment_simps new_payment_simps empty_store_def
        sample_world_simps Let_def)

text \<open>
  C6, amended. When a crypto method is selected for an unpaid Conversion with a positive
  price and no Coinbase API key is configured, \<open>create_payment_intent\<close> raises an
  \<open>HTTPException\<close> with status 500 that wraps "Cryptocurrency payments are not
  configured", and the Payment inserted before the dispatch stays in the store, in status
  FAILED with the error in \<open>provider_data\<close>: the store is the old one with exactly that
  row added.
\<close>

theorem crypto_unconfigured_fails_with_failed_payment:
  assumes "method \<in> set (map method_value [BTC, ETH, USDT, OTHER_CRYPTO])"
      and "\<not> coinbase_client s"
      and "\<not> is_paid c"
      and "calculate_price s (page_count c) = Inr a"
      and "\<not> fle0 a"
  shows "\<exists>m. PaymentMethod_of method = Inr m
           \<and> create_payment_intent w s db c method u md
             = (Inl (HTTPException 500 (''Error processing payment: '' @
                       str_of_exn w (HTTPException 500 ''Cryptocurrency payments are not configured''))),
                add_payment db
                  ((new_payment w db u c m a)
                     \<lparr>status := FAILED,
                      provider_data := Some (JObj [(''error'', JStr (str_of_exn w
                         (HTTPException 500 ''Cryptocurrency payments are not configured'')))]),
                      updated_at := Some (now w)\<rparr>))"
proof -
  from assms(1) obtain m where m: "PaymentMethod_of method = Inr m" "method \<noteq> method_value CREDIT_CARD"
    by (auto simp: PaymentMethod_of_def)
  have d: "dispatch w s db1 p c method md
             = (Inl (HTTPException 500 ''Cryptocurrency payments are not configured''), p, db1)"
    for db1 p
    using assms(1,2) m(2) by (simp add: dispatch_def process_crypto_payment_def)
  show ?thesis
    using assms(3,4,5) m(1)
    by (simp add: create_payment_intent_def d commit_after_add new_payment_simps Let_def)
qed

theorem crypto_unconfigured_fails_witness:
  "''bitcoin'' \<in> set (map method_value [BTC, ETH, USDT, OTHER_CRYPTO])
   \<and> \<not> coinbase_client sample_settings
   \<and> \<not> is_paid (sample_conversion 91 False)
   \<and> calculate_price sample_settings (page_count (sample_conversion 91 False))
       = Inr (Finite (2308094809027379 / 562949953421312))
   \<and> \<not> fle0 (Finite (2308094809027379 / 562949953421312))
   \<and> (\<exists>m db'. create_payment_intent (sample_world 200) sample_settings (empty_store 91 False)
                 (sample_conversion 91 False) ''bitcoin'' None None
               = (Inl (HTTPException 500 (''Error processing payment: '' @
                       sample_str (HTTPException 500 ''Cryptocurrency payments are not configured''))),
                  db'))"
proof -
  have a: "''bitcoin'' \<in> set (map method_value [BTC, ETH, USDT, OTHER_CRYPTO])" by simp
  have b: "\<not> coinbase_client sample_settings"
    by (simp add: sample_settings_simps)
  have c: "\<not> is_paid (sample_conversion 91 False)" by (simp add: sample_conversion_simps)
  have d: "calculate_price sample_settings (page_count (sample_conversion 91 False))
       = Inr (Finite (2308094809027379 / 562949953421312))"
    by (simp add: sample_conversion_simps price_91)
  have e: "\<not> fle0 (Finite (2308094809027379 / 562949953421312))" by (simp add: fle0_def)
  have f: "str_of_exn (sample_world 200) = sample_str" by (simp add: sample_world_simps)
  show ?thesis
    using a b c d e
      crypto_unconfigured_fails_with_failed_payment [OF a b c d e,
        of "sample_world 200" "empty_store 91 False" None None]
    by (auto simp: f)
qed

text \<open>What the adapters do to the Payment they are given and to the store.\<close>

lemma card_adapter_effect:
  "process_credit_card_payment w s db p c md = (r, p', db') \<Longrightarrow>
     amount p' = amount p \<and> amount_usd p' = amount_usd p \<and> pay_id p' = pay_id p \<and>
     status p' = status p \<and> (db' = db \<or> db' = commit_payment db p')"
  by (auto simp: process_credit_card_payment_def Let_def split: sum.splits)

lemma crypto_adapter_effect:
  "process_crypto_payment w s db p c md = (r, p', db') \<Longrightarrow>
     amount p' = amount p \<and> amount_usd p' = amount_usd p \<and> pay_id p' = pay_id p \<and>
     status p' = status p \<and> (db' = db \<or> db' = commit_payment db p')"
  by (auto simp: process_crypto_payment_def Let_def split: sum.splits if_splits)

lemma dispatch_effect:
  "dispatch w s db p c method md = (r, p', db') \<Longrightarrow>
     amount p' = amount p \<and> amount_usd p' = amount_usd p \<and> pay_id p' = pay_id p \<and>
     status p' = status p \<and> (db' = db \<or> db' = commit_payment db p')"
  unfolding dispatch_def
  by (auto split: if_splits dest: card_adapter_effect crypto_adapter_effect)

text \<open>A price that is not \<open>\<le> 0\<close> is positive: the pricing never yields NaN.\<close>

lemma price_positive:
  assumes "calculate_price s n = Inr a" and "\<not> fle0 a"
  shows "fpos a"
proof -
  have "a \<noteq> NaN"
    using assms(1)
    by (auto simp: calculate_price_def float_of_int_def fmul_def py_round2_def Let_def
             split: if_splits)
  with assms(2) show ?thesis
    by (cases a) (auto simp: fle0_def fpos_def)
qed

text \<open>The store after \<open>create_payment_intent\<close>: the Payments are as before, or one row
  was added under the next key, PENDING or FAILED, with the computed price as amount.\<close>

lemma create_payment_intent_effect:
  assumes "create_payment_intent w s db c method u md = (r, db')"
  shows "(payments db' = payments db \<and> next_payment_id db' = next_payment_id db
          \<and> (conversions db' = conversions db
               \<or> conversions db' = (conversions db)(conv_id c \<mapsto> c\<lparr>is_paid := True\<rparr>)))
       \<or> (\<exists>a q. calculate_price s (page_count c) = Inr a \<and> \<not> fle0 a \<and> \<not> is_paid c
                \<and> amount q = a \<and> amount_usd q = a
                \<and> (status q = PENDING \<or> status q = FAILED)
                \<and> pay_id q = next_payment_id db
                \<and> payments db' = (payments db)(next_payment_id db \<mapsto> q)
                \<and> next_payment_id db' = Suc (next_payment_id db)
                \<and> conversions db' = conversions db)"
proof (cases "is_paid c")
  case True
  with assms show ?thesis by (simp add: create_payment_intent_def)
next
  case unpaid: False
  show ?thesis
  proof (cases "calculate_price s (page_count c)")
    case (Inl e)
    with assms unpaid show ?thesis by (simp add: create_payment_intent_def)
  next
    case (Inr a)
    show ?thesis
    proof (cases "fle0 a")
      case True
      with assms unpaid Inr show ?thesis
        by (auto simp: create_payment_intent_def commit_conversion_simps)
    next
      case pos: False
      show ?thesis
      proof (cases "PaymentMethod_of method")
        case (Inl e)
        with assms unpaid Inr pos show ?thesis by (simp add: create_payment_intent_def)
      next
        case (Inr m)
        define p where "p = new_payment w db u c m a"
        obtain r1 p' db2 where d: "dispatch w s (add_payment db p) p c method md = (r1, p', db2)"
          by (cases "dispatch w s (add_payment db p) p c method md") auto
        note eff = dispatch_effect [OF d]
        have p': "amount p' = a" "amount_usd p' = a" "pay_id p' = next_payment_id db"
                 "status p' = PENDING"
          using eff by (simp_all add: p_def new_payment_simps)
        have db2: "payments db2 = (payments db)(next_payment_id db \<mapsto> p)
                     \<or> payments db2 = (payments db)(next_payment_id db \<mapsto> p')"
          and db2': "next_payment_id db2 = Suc (next_payment_id db)" "conversions db2 = conversions db"
          using eff p'(3)
          by (auto simp: commit_payment_simps add_payment_simps p_def new_payment_simps)
        show ?thesis
        proof (cases r1)
          case (Inr resp)
          with assms unpaid \<open>calculate_price s (page_count c) = Inr a\<close> pos
               \<open>PaymentMethod_of method = Inr m\<close> d
          have "db' = db2"
            by (simp add: create_payment_intent_def Let_def p_def)
          moreover have "\<exists>q. payments db2 = (payments db)(next_payment_id db \<mapsto> q)
                         \<and> amount q = a \<and> amount_usd q = a \<and> status q = PENDING
                         \<and> pay_id q = next_payment_id db"
            using db2
          proof
            assume "payments db2 = (payments db)(next_payment_id db \<mapsto> p)"
            then show ?thesis
              by (intro exI [of _ p]) (simp add: p_def new_payment_simps)
          next
            assume "payments db2 = (payments db)(next_payment_id db \<mapsto> p')"
            then show ?thesis
              by (intro exI [of _ p']) (simp add: p')
          qed
          ultimately show ?thesis
            using db2' \<open>calculate_price s (page_count c) = Inr a\<close> pos unpaid
            by auto
        next
          case (Inl e)
          define q where "q = p'\<lparr>status := FAILED,
               provider_data := Some (JObj [(''error'', JStr (str_of_exn w e))]),
               updated_at := Some (now w)\<rparr>"
          from Inl assms unpaid \<open>calculate_price s (page_count c) = Inr a\<close> pos
               \<open>PaymentMethod_of method = Inr m\<close> d
          have "db' = commit_payment db2 q"
            by (simp add: create_payment_intent_def Let_def p_def q_def)
          moreover have "amount q = a" "amount_usd q = a" "status q = FAILED"
            "pay_id q = next_payment_id db"
            using p' by (simp_all add: q_def)
          ultimately show ?thesis
            using db2 db2' \<open>calculate_price s (page_count c) = Inr a\<close> pos unpaid
            by (auto simp: commit_payment_simps)
        qed
      qed
    qed
  qed
qed

text \<open>
  C5. For every Conversion whose computed price is 0, \<open>create_payment_intent\<close> sets the
  paid flag, commits the Conversion and returns the no-payment-needed result, and the
  table of Payments and the next key are as before. The Conversion is one that reaches the
  pricing, that is, one not yet paid: an already-paid one is rejected by the check at the
  top of the function, and for it too no Payment is created. And for every call: a
  Payment row that is in the store after the call and was not there before has \<open>amount\<close>
  and \<open>amount_usd\<close> strictly positive.
\<close>

theorem zero_price_marks_paid_without_payment:
  "(calculate_price s (page_count c) = Inr (Finite 0) \<longrightarrow>
       payments (snd (create_payment_intent w s db c method u md)) = payments db
     \<and> next_payment_id (snd (create_payment_intent w s db c method u md)) = next_payment_id db
     \<and> (\<not> is_paid c \<longrightarrow>
          create_payment_intent w s db c method u md
            = (Inr NoPaymentNeeded, commit_conversion db (c\<lparr>is_paid := True\<rparr>))
        \<and> map_option is_paid
            (conversions (snd (create_payment_intent w s db c method u md)) (conv_id c))
            = Some True))
   \<and> (payments (snd (create_payment_intent w s db c method u md)) k = Some p
        \<and> payments db k \<noteq> Some p \<longrightarrow> fpos (amount p) \<and> fpos (amount_usd p))"
proof (intro conjI impI)
  assume z: "calculate_price s (page_count c) = Inr (Finite 0)"
  show "payments (snd (create_payment_intent w s db c method u md)) = payments db"
    using z by (simp add: create_payment_intent_def fle0_def commit_conversion_simps)
  show "next_payment_id (snd (create_payment_intent w s db c method u md)) = next_payment_id db"
    using z by (simp add: create_payment_intent_def fle0_def commit_conversion_simps)
  assume "\<not> is_paid c"
  with z show "create_payment_intent w s db c method u md
            = (Inr NoPaymentNeeded, commit_conversion db (c\<lparr>is_paid := True\<rparr>))"
    by (simp add: create_payment_intent_def fle0_def)
  then show "map_option is_paid
            (conversions (snd (create_payment_intent w s db c method u md)) (conv_id c))
            = Some True"
    by (simp add: commit_conversion_simps)
next
  assume a: "payments (snd (create_payment_intent w s db c method u md)) k = Some p
        \<and> payments db k \<noteq> Some p"
  obtain r db' where r: "create_payment_intent w s db c method u md = (r, db')"
    by (cases "create_payment_intent w s db c method u md") auto
  from create_payment_intent_effect [OF r] a r
  obtain a' where "calculate_price s (page_count c) = Inr a'" "\<not> fle0 a'"
      "amount p = a'" "amount_usd p = a'"
    by (auto split: if_splits)
  then show "fpos (amount p)" "fpos (amount_usd p)"
    using price_positive by auto
qed

text \<open>The card flow at the sample data: an unpaid Conversion of 91 pages.\<close>

lemma sample_stripe_create:
  "stripe_create (sample_world t) req
     = Inr \<lparr>intent_id = ''pi_1'', client_secret = ''pi_1_secret'',
            intent_status = ''requires_payment_method'',
            intent_dict = JObj [(''id'', JStr ''pi_1''), (''amount'', JNum (ir_amount req))]\<rparr>"
  by (simp add: sample_world_def)

lemma card_flow_91:
  "payments (snd (create_payment_intent (sample_world 200) sample_settings (empty_store 91 False)
                    (sample_conversion 91 False) ''credit_card'' None None)) 1
     = Some ((new_payment (sample_world 200) (empty_store 91 False) None
                (sample_conversion 91 False) CREDIT_CARD
                (Finite (2308094809027379 / 562949953421312)))
             \<lparr>provider := Some ''stripe'', provider_payment_id := Some ''pi_1'',
              provider_data := Some (JObj [(''id'', JStr ''pi_1''), (''amount'', JNum 409)]),
              updated_at := Some 200\<rparr>)"
proof -
  have n: "next_payment_id (empty_store 91 False) = 1" "payments (empty_store 91 False) = Map.empty"
    by (simp_all add: empty_store_def)
  show ?thesis
    by (simp add: create_payment_intent_def sample_conversion_simps price_91 fle0_def
          PaymentMethod_of_def dispatch_def process_credit_card_payment_def card_request_def
          amount_in_cents_def new_payment_simps cents_of_4_1 and_then_def sample_stripe_create
          sample_world_simps commit_payment_simps add_payment_simps n Let_def)
qed

theorem zero_price_marks_paid_witness:
  "calculate_price sample_settings (page_count (sample_conversion 10 False)) = Inr (Finite 0)
   \<and> \<not> is_paid (sample_conversion 10 False)
   \<and> create_payment_intent (sample_world 200) sample_settings (empty_store 10 False)
         (sample_conversion 10 False) ''credit_card'' None None
       = (Inr NoPaymentNeeded,
          commit_conversion (empty_store 10 False) ((sample_conversion 10 False)\<lparr>is_paid := True\<rparr>))
   \<and> payments (snd (create_payment_intent (sample_world 200) sample_settings (empty_store 10 False)
         (sample_conversion 10 False) ''credit_card'' None None)) = payments (empty_store 10 False)
   \<and> payments (empty_store 91 False) 1 = None
   \<and> payments (snd (create_payment_intent (sample_world 200) sample_settings (empty_store 91 False)
                    (sample_conversion 91 False) ''credit_card'' None None)) 1 \<noteq> None
   \<and> fpos (amount (the (payments (snd (create_payment_intent (sample_world 200) sample_settings
                    (empty_store 91 False) (sample_conversion 91 False)
                    ''credit_card'' None None)) 1)))"
proof -
  have a: "calculate_price sample_settings (page_count (sample_conversion 10 False)) = Inr (Finite 0)"
    by (simp add: sample_conversion_simps price_10)
  have b: "\<not> is_paid (sample_conversion 10 False)"
    by (simp add: sample_conversion_simps)
  have c: "payments (empty_store 91 False) 1 = None"
    by (simp add: empty_store_def)
  let ?r10 = "create_payment_intent (sample_world 200) sample_settings (empty_store 10 False)
         (sample_conversion 10 False) ''credit_card'' None None"
  let ?r91 = "create_payment_intent (sample_world 200) sample_settings (empty_store 91 False)
         (sample_conversion 91 False) ''credit_card'' None None"
  note t10 = zero_price_marks_paid_without_payment
        [of sample_settings "sample_conversion 10 False" "sample_world 200" "empty_store 10 False"
            "''credit_card''" None None, THEN conjunct1, rule_format, OF a]
  from t10 have p10: "payments (snd ?r10) = payments (empty_store 10 False)"
    by (rule conjunct1)
  from t10 b have r10: "?r10 = (Inr NoPaymentNeeded,
          commit_conversion (empty_store 10 False) ((sample_conversion 10 False)\<lparr>is_paid := True\<rparr>))"
    by blast
  have d: "payments (snd ?r91) 1 = Some (the (payments (snd ?r91) 1))"
    using card_flow_91 by simp
  have e: "payments (empty_store 91 False) 1 \<noteq> Some (the (payments (snd ?r91) 1))"
    using c by simp
  note t91 = zero_price_marks_paid_without_payment
        [of sample_settings "sample_conversion 91 False" "sample_world 200" "empty_store 91 False"
            "''credit_card''" None None 1 "the (payments (snd ?r91) 1)",
         THEN conjunct2, rule_format, OF conjI [OF d e]]
  from d have f: "payments (snd ?r91) 1 \<noteq> None"
    by (metis option.distinct(1))
  show ?thesis
    using a b c p10 r10 f t91 by blast
qed

section \<open>Card adapter\<close>

text \<open>
  C9. The code at a Conversion of 91 pages with the default pricing. The price is the
  float \<open>4.1\<close> (the amount 4.10), and the card adapter sends \<open>int(4.1 * 100) = 409\<close>
  cents to the provider, not 410: the float product is \<open>409.99999999999994\<close> and \<open>int\<close>
  truncates. The sample provider returns the amount it was sent in the intent, which the
  adapter stores in \<open>provider_data\<close>.
\<close>

theorem card_amount_truncated:
  "calculate_price sample_settings 91 = Inr (Finite (rnd64 (41 / 10)))
   \<and> map_option amount
        (payments (snd (create_payment_intent (sample_world 200) sample_settings
                          (empty_store 91 False) (sample_conversion 91 False)
                          ''credit_card'' None None)) 1)
       = Some (Finite (rnd64 (41 / 10)))
   \<and> map_option provider_data
        (payments (snd (create_payment_intent (sample_world 200) sample_settings
                          (empty_store 91 False) (sample_conversion 91 False)
                          ''credit_card'' None None)) 1)
       = Some (Some (JObj [(''id'', JStr ''pi_1''), (''amount'', JNum 409)]))
   \<and> fmul (Finite (rnd64 (41 / 10))) (Finite 100) = Finite (7212796278210559 / 17592186044416)
   \<and> (7212796278210559 / 17592186044416 :: rat) < 410"
proof -
  have "fmul (Finite (2308094809027379 / 562949953421312)) (Finite 100)
          = Finite (7212796278210559 / 17592186044416)"
    by code_simp
  then show ?thesis
    using card_flow_91 by (simp add: price_91 literal_4_1 new_payment_simps)
qed

lemma wf_sample_store: "wf_store (sample_store st)"
  by (auto simp: wf_store_def sample_store_def sample_payment_def new_payment_def
        sample_conversion_def split: if_splits)

lemma find_sample_payment:
  "find_payment (sample_world t) (sample_store st) (JStr ''1'') = Some (sample_payment st)"
  by (simp add: find_payment_def sample_world_simps sample_store_def)

lemma sample_payment_simps:
  "pay_id (sample_payment st) = 1" "conversion_id (sample_payment st) = 7"
  "status (sample_payment st) = st"
  "paid_at (sample_payment st) = (if st = COMPLETED then Some 150 else None)"
  by (simp_all add: sample_payment_def new_payment_def sample_conversion_def)

text \<open>A verified \<open>payment_intent.succeeded\<close> event for Payment 1 reaches the
  reconciliation step.\<close>

lemma sample_webhook:
  "handle_webhook (sample_world t) sample_settings db ''stripe'' payload (Some ''good'')
     = (case process_successful_payment (sample_world t) db (JStr ''1'') (Some sample_intent) of
          (Inl e, db') \<Rightarrow>
            (Inl (HTTPException 400
                   (''Error processing webhook: '' @ str_of_exn (sample_world t) e)), db')
        | r \<Rightarrow> r)"
  by (simp add: handle_webhook_def handle_stripe_webhook_def sample_world_simps sample_event_def
        sample_intent_def and_then_def)

lemma sample_reconcile:
  "process_successful_payment (sample_world t) (sample_store st) (JStr ''1'') (Some sample_intent)
     = (Inr (Reconciled 1 7),
        commit_conversion
          (commit_payment (sample_store st)
             ((sample_payment st)\<lparr>status := COMPLETED, paid_at := Some t, updated_at := Some t,
                                   provider_data := Some sample_intent\<rparr>))
          ((sample_conversion 91 (st = COMPLETED))\<lparr>is_paid := True\<rparr>))"
proof -
  have c: "conversions (sample_store st) 7 = Some (sample_conversion 91 (st = COMPLETED))"
    by (simp add: sample_store_def)
  have t: "truthy sample_intent" by (simp add: sample_intent_def)
  show ?thesis
    by (simp add: process_successful_payment_def find_sample_payment sample_payment_simps c t
          sample_world_simps Let_def)
qed

text \<open>
  C1, as stated, fails. A FAILED Payment is a terminal one, and a verified
  \<open>payment_intent.succeeded\<close> webhook for it moves it to COMPLETED. A COMPLETED Payment
  paid at time 150 gets \<open>paid_at = 200\<close> when the same event arrives at time 200.
\<close>

theorem reconcile_terminal_counterexample:
  "map_option status (payments (sample_store FAILED) 1) = Some FAILED
   \<and> map_option status
        (payments (snd (handle_webhook (sample_world 200) sample_settings (sample_store FAILED)
                         ''stripe'' ''body'' (Some ''good''))) 1) = Some COMPLETED
   \<and> map_option paid_at (payments (sample_store COMPLETED) 1) = Some (Some 150)
   \<and> map_option paid_at
        (payments (snd (handle_webhook (sample_world 200) sample_settings (sample_store COMPLETED)
                         ''stripe'' ''body'' (Some ''good''))) 1) = Some (Some 200)"
  by (simp add: sample_webhook sample_reconcile commit_payment_simps commit_conversion_simps
        sample_payment_simps)
     (simp add: sample_store_def sample_payment_simps)

text \<open>
  C1, amended. There is no terminal-state check: for a Payment found under the event's
  identifier, in any status, the reconciliation step returns the success result and stores
  the Payment as COMPLETED with \<open>paid_at\<close> and \<open>updated_at\<close> set to the current time and
  \<open>provider_data\<close> set to the event's payload (when that is non-empty), and the linked
  Conversion as paid. Applying the same event again returns the same result; the store is
  then unchanged when the clock reads the same, and otherwise differs only in \<open>paid_at\<close>
  and \<open>updated_at\<close> of that Payment.
\<close>

theorem reconcile_overwrites_any_status:
  assumes "truthy pid"
      and "find_payment w db pid = Some p"
      and "wf_store db"
  shows "\<exists>db1. process_successful_payment w db pid d
                  = (Inr (Reconciled (pay_id p) (conversion_id p)), db1)
     \<and> payments db1 = (payments db)(pay_id p \<mapsto>
           p\<lparr>status := COMPLETED, paid_at := Some (now w), updated_at := Some (now w),
             provider_data := (case d of None \<Rightarrow> provider_data p
                               | Some v \<Rightarrow> if truthy v then Some v else provider_data p)\<rparr>)
     \<and> conversions db1 = (case conversions db (conversion_id p) of
                             None \<Rightarrow> conversions db
                           | Some c \<Rightarrow> (conversions db)(conversion_id p \<mapsto> c\<lparr>is_paid := True\<rparr>))
     \<and> process_successful_payment w db1 pid d
          = (Inr (Reconciled (pay_id p) (conversion_id p)), db1)
     \<and> (\<forall>w'. key_of w' pid = key_of w pid \<longrightarrow>
           (\<exists>db2. process_successful_payment w' db1 pid d
                     = (Inr (Reconciled (pay_id p) (conversion_id p)), db2)
              \<and> payments db2 = (payments db1)(pay_id p \<mapsto>
                   p\<lparr>status := COMPLETED, paid_at := Some (now w'), updated_at := Some (now w'),
                     provider_data := (case d of None \<Rightarrow> provider_data p
                                       | Some v \<Rightarrow> if truthy v then Some v else provider_data p)\<rparr>)
              \<and> conversions db2 = conversions db1
              \<and> next_payment_id db2 = next_payment_id db1))"
proof -
  from assms(2) obtain k where k: "key_of w pid = Some k" "payments db k = Some p"
    by (auto simp: find_payment_def split: option.splits)
  with assms(3) have pk: "pay_id p = k"
    by (simp add: wf_store_def)
  define p2 where "p2 = (\<lambda>t. p\<lparr>status := COMPLETED, paid_at := Some t, updated_at := Some t,
             provider_data := (case d of None \<Rightarrow> provider_data p
                               | Some v \<Rightarrow> if truthy v then Some v else provider_data p)\<rparr>)"
  define p1 where "p1 = p2 (now w)"
  show ?thesis
  proof (cases "conversions db (conversion_id p)")
    case None
    define db1 where "db1 = commit_payment db p1"
    have first: "process_successful_payment w db pid d
                  = (Inr (Reconciled (pay_id p) (conversion_id p)), db1)"
      using assms(1,2) None
      by (simp add: process_successful_payment_def Let_def db1_def p1_def p2_def)
    have found: "find_payment w' db1 pid = Some p1" if "key_of w' pid = key_of w pid" for w'
      using that k pk by (simp add: find_payment_def db1_def commit_payment_simps p1_def p2_def)
    have again: "process_successful_payment w' db1 pid d
          = (Inr (Reconciled (pay_id p) (conversion_id p)),
             commit_payment db1 (p2 (now w')))"
      if "key_of w' pid = key_of w pid" for w'
      using assms(1) found [OF that] None
      by (cases d)
         (simp_all add: process_successful_payment_def Let_def db1_def p1_def p2_def commit_payment_simps)
    have same: "commit_payment db1 (p2 (now w)) = db1"
      by (simp add: db1_def p1_def p2_def commit_payment_def)
    show ?thesis
      apply (rule exI [of _ db1])
      using first again [of w] same again None
      by (simp add: db1_def p1_def p2_def commit_payment_simps)
  next
    case (Some c)
    with assms(3) have ck: "conv_id c = conversion_id p"
      by (simp add: wf_store_def)
    define db1 where "db1 = commit_conversion (commit_payment db p1) (c\<lparr>is_paid := True\<rparr>)"
    have first: "process_successful_payment w db pid d
                  = (Inr (Reconciled (pay_id p) (conversion_id p)), db1)"
      using assms(1,2) Some
      by (simp add: process_successful_payment_def Let_def db1_def p1_def p2_def)
    have found: "find_payment w' db1 pid = Some p1" if "key_of w' pid = key_of w pid" for w'
      using that k pk
      by (simp add: find_payment_def db1_def commit_payment_simps commit_conversion_simps p1_def p2_def)
    have conv: "conversions db1 (conversion_id p) = Some (c\<lparr>is_paid := True\<rparr>)"
      using ck by (simp add: db1_def commit_conversion_simps)
    have again: "process_successful_payment w' db1 pid d
          = (Inr (Reconciled (pay_id p) (conversion_id p)),
             commit_conversion
               (commit_payment db1 (p2 (now w')))
               (c\<lparr>is_paid := True\<rparr>))"
      if "key_of w' pid = key_of w pid" for w'
      using assms(1) found [OF that] conv
      by (cases d)
         (simp_all add: process_successful_payment_def Let_def p1_def p2_def)
    have same: "commit_conversion
               (commit_payment db1 (p2 (now w)))
               (c\<lparr>is_paid := True\<rparr>) = db1"
      by (simp add: db1_def p1_def p2_def commit_payment_def commit_conversion_def)
    show ?thesis
      apply (rule exI [of _ db1])
      using first again [of w] same again Some ck
      by (simp add: db1_def p1_def p2_def commit_payment_simps commit_conversion_simps)
  qed
qed

theorem reconcile_overwrites_any_status_witness:
  "truthy (JStr ''1'')
   \<and> find_payment (sample_world 200) (sample_store FAILED) (JStr ''1'') = Some (sample_payment FAILED)
   \<and> wf_store (sample_store FAILED)
   \<and> status (sample_payment FAILED) = FAILED
   \<and> (\<exists>db1. process_successful_payment (sample_world 200) (sample_store FAILED) (JStr ''1'')
               (Some sample_intent) = (Inr (Reconciled 1 7), db1)
            \<and> map_option status (payments db1 1) = Some COMPLETED
            \<and> process_successful_payment (sample_world 200) db1 (JStr ''1'') (Some sample_intent)
                = (Inr (Reconciled 1 7), db1))"
proof -
  have a: "truthy (JStr ''1'')" by simp
  note b = find_sample_payment [of 200 FAILED]
  note c = wf_sample_store [of FAILED]
  from reconcile_overwrites_any_status [OF a b c, of "Some sample_intent"]
  obtain db1 where
    "process_successful_payment (sample_world 200) (sample_store FAILED) (JStr ''1'')
       (Some sample_intent) = (Inr (Reconciled 1 7), db1)"
    "map_option status (payments db1 1) = Some COMPLETED"
    "process_successful_payment (sample_world 200) db1 (JStr ''1'') (Some sample_intent)
       = (Inr (Reconciled 1 7), db1)"
    by (auto simp: sample_payment_simps)
  with a b c show ?thesis
    by (auto simp: sample_payment_simps)
qed

section \<open>Status transitions over sequences of operations\<close>

lemma evolves_refl: "evolves db db"
  by (simp add: evolves_def)

lemma evolves_trans:
  assumes "evolves a b" and "evolves b c"
  shows "evolves a c"
  unfolding evolves_def
proof (intro conjI allI impI)
  fix k p
  assume "payments a k = Some p"
  with assms(1) obtain p' where p': "payments b k = Some p'"
      "status p' = status p \<or> status p' = COMPLETED"
    unfolding evolves_def by blast
  with assms(2) obtain p'' where "payments c k = Some p''"
      "status p'' = status p' \<or> status p'' = COMPLETED"
    unfolding evolves_def by blast
  with p'(2) show "\<exists>p'. payments c k = Some p' \<and> (status p' = status p \<or> status p' = COMPLETED)"
    by auto
next
  fix k p''
  assume n: "payments a k = None" and s: "payments c k = Some p''"
  show "status p'' = PENDING \<or> status p'' = FAILED \<or> status p'' = COMPLETED"
  proof (cases "payments b k")
    case None
    with assms(2) s show ?thesis
      unfolding evolves_def by blast
  next
    case (Some p')
    with assms(1) n have "status p' = PENDING \<or> status p' = FAILED \<or> status p' = COMPLETED"
      unfolding evolves_def by blast
    moreover from assms(2) Some s have "status p'' = status p' \<or> status p'' = COMPLETED"
      unfolding evolves_def by fastforce
    ultimately show ?thesis by auto
  qed
qed

text \<open>The store after a reconciliation that found its Payment.\<close>

lemma reconcile_store:
  assumes "truthy pid" and "find_payment w db pid = Some p"
  shows "map_option status (payments (snd (process_successful_payment w db pid d)) (pay_id p))
           = Some COMPLETED"
    and "map_option pay_id (payments (snd (process_successful_payment w db pid d)) (pay_id p))
           = Some (pay_id p)"
    and "k \<noteq> pay_id p \<Longrightarrow>
           payments (snd (process_successful_payment w db pid d)) k = payments db k"
    and "next_payment_id (snd (process_successful_payment w db pid d)) = next_payment_id db"
    and "conversions (snd (process_successful_payment w db pid d))
           = (case conversions db (conversion_id p) of
                None \<Rightarrow> conversions db
              | Some c \<Rightarrow> (conversions db)(conv_id c \<mapsto> c\<lparr>is_paid := True\<rparr>))"
  using assms
  by (simp_all add: process_successful_payment_def Let_def commit_payment_simps
        commit_conversion_simps split: option.split)

text \<open>The reconciliation step on a well-formed store.\<close>

lemma reconcile_evolves:
  assumes "wf_store db" and "process_successful_payment w db pid d = (r, db')"
  shows "wf_store db' \<and> evolves db db'"
proof (cases "truthy pid")
  case False
  with assms show ?thesis
    by (simp add: process_successful_payment_def evolves_refl)
next
  case True
  show ?thesis
  proof (cases "find_payment w db pid")
    case None
    with assms True show ?thesis
      by (simp add: process_successful_payment_def evolves_refl)
  next
    case (Some p)
    then obtain k where k: "payments db k = Some p"
      by (auto simp: find_payment_def split: option.splits)
    with assms(1) have pk: "pay_id p = k" "k < next_payment_id db"
      by (simp_all add: wf_store_def)
    have db': "db' = snd (process_successful_payment w db pid d)"
      using assms(2) by simp
    note rs = reconcile_store [OF True Some, where d = d, folded db']
    from rs(1,2) pk(1) obtain p1 where p1: "payments db' k = Some p1" "status p1 = COMPLETED"
        "pay_id p1 = k" "next_payment_id db' = next_payment_id db"
      using rs(4) by (cases "payments db' k") auto
    have cv: "conversions db' = conversions db
               \<or> (\<exists>c. conversions db (conversion_id p) = Some c
                      \<and> conversions db' = (conversions db)(conv_id c \<mapsto> c\<lparr>is_paid := True\<rparr>))"
      using rs(5) by (cases "conversions db (conversion_id p)") simp_all
    have pays: "payments db' k' = (if k' = k then Some p1 else payments db k')" for k'
      using p1(1) rs(3) [where k = k'] pk(1) by simp
    have "wf_store db'"
      unfolding wf_store_def
    proof (intro conjI allI impI)
      fix k' q
      assume "payments db' k' = Some q"
      then have "(k' = k \<and> q = p1) \<or> payments db k' = Some q"
        by (simp add: pays split: if_splits)
      then show "pay_id q = k'" and "k' < next_payment_id db'"
        using assms(1) p1(3,4) pk by (auto simp: wf_store_def)
    next
      fix k' c'
      assume c': "conversions db' k' = Some c'"
      from cv show "conv_id c' = k'"
      proof
        assume "conversions db' = conversions db"
        with c' assms(1) show ?thesis by (simp add: wf_store_def)
      next
        assume "\<exists>c. conversions db (conversion_id p) = Some c
                  \<and> conversions db' = (conversions db)(conv_id c \<mapsto> c\<lparr>is_paid := True\<rparr>)"
        then obtain c where c: "conversions db (conversion_id p) = Some c"
            "conversions db' = (conversions db)(conv_id c \<mapsto> c\<lparr>is_paid := True\<rparr>)"
          by blast
        show ?thesis
        proof (cases "k' = conv_id c")
          case True
          with c' c(2) show ?thesis by auto
        next
          case False
          with c' c(2) have "conversions db k' = Some c'" by simp
          with assms(1) show ?thesis by (simp add: wf_store_def)
        qed
      qed
    qed
    moreover have "evolves db db'"
      unfolding evolves_def
    proof (intro conjI allI impI)
      fix k' q
      assume q: "payments db k' = Some q"
      show "\<exists>p'. payments db' k' = Some p' \<and> (status p' = status q \<or> status p' = COMPLETED)"
      proof (cases "k' = k")
        case True
        then show ?thesis using p1(2) by (simp add: pays)
      next
        case False
        then show ?thesis using q by (simp add: pays)
      qed
    next
      fix k' q
      assume "payments db k' = None" and "payments db' k' = Some q"
      then show "status q = PENDING \<or> status q = FAILED \<or> status q = COMPLETED"
        using k p1(2) by (auto simp: pays split: if_splits)
    qed
    ultimately show ?thesis ..
  qed
qed

text \<open>The two other entry points change the store through the reconciliation step only.\<close>

lemma coinbase_body_store:
  "coinbase_webhook_body w s db payload sg = (r, db') \<Longrightarrow>
     db' = db \<or> (\<exists>pid d. process_successful_payment w db pid d = (r, db'))"
  by (auto simp: coinbase_webhook_body_def and_then_def
           split: sum.splits exn.splits if_splits option.splits)

lemma coinbase_webhook_store:
  assumes "handle_coinbase_webhook w s db payload sg = (r, db')"
  shows "db' = db \<or> (\<exists>pid d r'. process_successful_payment w db pid d = (r', db'))"
proof (cases "coinbase_webhook_body w s db payload sg")
  case (Pair r1 db1)
  with assms have "db' = db1"
    by (auto simp: handle_coinbase_webhook_def split: sum.splits exn.splits)
  with coinbase_body_store [OF Pair] show ?thesis by blast
qed

lemma stripe_webhook_store:
  "handle_stripe_webhook w s db payload sg = (r, db') \<Longrightarrow>
     db' = db \<or> (\<exists>pid d. process_successful_payment w db pid d = (r, db'))"
  by (auto simp: handle_stripe_webhook_def and_then_def split: sum.splits exn.splits if_splits)

lemma handle_webhook_store:
  assumes "handle_webhook w s db prov payload sg = (r, db')"
  shows "db' = db \<or> (\<exists>pid d r'. process_successful_payment w db pid d = (r', db'))"
proof -
  define inner where "inner =
     (if prov = ''stripe'' then handle_stripe_webhook w s db payload sg
      else if prov = ''coinbase'' then handle_coinbase_webhook w s db payload sg
      else (Inl (HTTPException 400 (''Unsupported payment provider: '' @ prov)), db))"
  have "snd inner = db'"
    using assms unfolding handle_webhook_def inner_def [symmetric]
    by (cases inner) (auto split: sum.splits)
  moreover have "snd inner = db \<or> (\<exists>pid d r'. process_successful_payment w db pid d = (r', snd inner))"
  proof (cases "prov = ''stripe''")
    case True
    obtain r1 d1 where h: "handle_stripe_webhook w s db payload sg = (r1, d1)"
      by (cases "handle_stripe_webhook w s db payload sg") auto
    from stripe_webhook_store [OF h] True h show ?thesis
      unfolding inner_def by auto
  next
    case False
    show ?thesis
    proof (cases "prov = ''coinbase''")
      case True
      obtain r1 d1 where h: "handle_coinbase_webhook w s db payload sg = (r1, d1)"
        by (cases "handle_coinbase_webhook w s db payload sg") auto
      from coinbase_webhook_store [OF h] True False h show ?thesis
        unfolding inner_def by auto
    next
      case other: False
      with False show ?thesis unfolding inner_def by simp
    qed
  qed
  ultimately show ?thesis by simp
qed

lemma poll_provider_store:
  "poll_provider w s db k p = Some (r, db') \<Longrightarrow>
     db' = db \<or> (\<exists>pid d. process_successful_payment w db pid d = (r, db'))"
  by (auto simp: poll_provider_def split: sum.splits if_splits)

lemma get_payment_status_store:
  "get_payment_status w s db k = (r, db') \<Longrightarrow>
     db' = db \<or> (\<exists>pid d r'. process_successful_payment w db pid d = (r', db'))"
  by (auto simp: get_payment_status_def split: option.splits if_splits sum.splits prod.splits
           dest: poll_provider_store)

lemma create_payment_intent_evolves:
  assumes "wf_store db" and "conversions db cid = Some c"
      and "create_payment_intent w s db c method u md = (r, db')"
  shows "wf_store db' \<and> evolves db db'"
proof -
  from assms(1,2) have ck: "conv_id c = cid"
    by (simp add: wf_store_def)
  from create_payment_intent_effect [OF assms(3)]
  consider (same) "payments db' = payments db" "next_payment_id db' = next_payment_id db"
      "conversions db' = conversions db
         \<or> conversions db' = (conversions db)(conv_id c \<mapsto> c\<lparr>is_paid := True\<rparr>)"
    | (new) q where "status q = PENDING \<or> status q = FAILED" "pay_id q = next_payment_id db"
        "payments db' = (payments db)(next_payment_id db \<mapsto> q)"
        "next_payment_id db' = Suc (next_payment_id db)" "conversions db' = conversions db"
    by blast
  then show ?thesis
  proof cases
    case same
    have "wf_store db'"
      using assms(1) same by (auto simp: wf_store_def split: if_splits)
    moreover have "evolves db db'"
      using same by (simp add: evolves_def)
    ultimately show ?thesis ..
  next
    case new
    have fresh: "payments db (next_payment_id db) = None"
      using assms(1) by (cases "payments db (next_payment_id db)") (auto simp: wf_store_def)
    have "wf_store db'"
      using assms(1) new by (auto simp: wf_store_def less_Suc_eq split: if_splits)
    moreover have "evolves db db'"
      using new fresh by (auto simp: evolves_def)
    ultimately show ?thesis ..
  qed
qed

lemma step_evolves:
  assumes "wf_store db"
  shows "wf_store (step s x db) \<and> evolves db (step s x db)"
proof (cases x)
  case (Pair w oper)
  show ?thesis
  proof (cases oper)
    case (CreateIntent cid meth u md)
    show ?thesis
    proof (cases "conversions db cid")
      case None
      with Pair CreateIntent assms show ?thesis by (simp add: evolves_refl)
    next
      case (Some c)
      with Pair CreateIntent
        create_payment_intent_evolves [OF assms Some, of w s meth u md
          "fst (create_payment_intent w s db c meth u md)"
          "snd (create_payment_intent w s db c meth u md)"]
      show ?thesis by simp
    qed
  next
    case (HandleWebhook prov payload sg)
    from handle_webhook_store [of w s db prov payload sg
          "fst (handle_webhook w s db prov payload sg)"
          "snd (handle_webhook w s db prov payload sg)"]
    have "snd (handle_webhook w s db prov payload sg) = db
        \<or> (\<exists>pid d r'. process_successful_payment w db pid d
                          = (r', snd (handle_webhook w s db prov payload sg)))"
      by simp
    with Pair HandleWebhook assms show ?thesis
      by (auto simp: evolves_refl dest: reconcile_evolves)
  next
    case (GetPaymentStatus k)
    from get_payment_status_store [of w s db k
          "fst (get_payment_status w s db k)" "snd (get_payment_status w s db k)"]
    have "snd (get_payment_status w s db k) = db
        \<or> (\<exists>pid d r'. process_successful_payment w db pid d
                          = (r', snd (get_payment_status w s db k)))"
      by simp
    with Pair GetPaymentStatus assms show ?thesis
      by (auto simp: evolves_refl dest: reconcile_evolves)
  qed
qed

lemma run_evolves:
  "wf_store db \<Longrightarrow> wf_store (run s ops db) \<and> evolves db (run s ops db)"
proof (induction ops arbitrary: db)
  case Nil
  then show ?case by (simp add: evolves_refl)
next
  case (Cons x ops)
  from step_evolves [OF Cons.prems, of s x]
  have a: "wf_store (step s x db)" "evolves db (step s x db)" by simp_all
  from Cons.IH [OF a(1)] a(2) show ?case
    by (auto intro: evolves_trans)
qed

text \<open>The crypto flow at the sample data, where no Coinbase API key is set.\<close>

lemma crypto_flow_91:
  "snd (create_payment_intent (sample_world t) sample_settings (empty_store 91 False)
          (sample_conversion 91 False) ''bitcoin'' None None)
     = add_payment (empty_store 91 False)
         ((new_payment (sample_world t) (empty_store 91 False) None (sample_conversion 91 False)
             BTC (Finite (2308094809027379 / 562949953421312)))
          \<lparr>status := FAILED,
           provider_data := Some (JObj [(''error'', JStr (sample_str
              (HTTPException 500 ''Cryptocurrency payments are not configured'')))]),
           updated_at := Some t\<rparr>)"
  by (simp add: create_payment_intent_def sample_conversion_simps price_91 fle0_def
        PaymentMethod_of_def dispatch_def process_crypto_payment_def sample_settings_simps
        commit_after_add new_payment_simps sample_world_simps Let_def
      del: sample_str.simps)

lemma wf_empty_store: "wf_store (empty_store n b)"
  by (auto simp: wf_store_def empty_store_def sample_conversion_def split: if_splits)

text \<open>
  C2, as stated, fails. From a store with one unpaid Conversion of 91 pages,
  \<open>create_payment_intent\<close> with a crypto method and no Coinbase API key leaves Payment 1
  in status FAILED, and a verified \<open>payment_intent.succeeded\<close> webhook that names Payment 1
  then moves it from FAILED to COMPLETED.
\<close>

theorem failed_then_completed_counterexample:
  "map_option status
     (payments (run sample_settings
                  [(sample_world 100, CreateIntent 7 ''bitcoin'' None None)]
                  (empty_store 91 False)) 1) = Some FAILED
   \<and> map_option status
     (payments (run sample_settings
                  [(sample_world 100, CreateIntent 7 ''bitcoin'' None None),
                   (sample_world 200, HandleWebhook ''stripe'' ''body'' (Some ''good''))]
                  (empty_store 91 False)) 1) = Some COMPLETED"
proof -
  have c: "conversions (empty_store 91 False) 7 = Some (sample_conversion 91 False)"
          "next_payment_id (empty_store 91 False) = 1"
    by (simp_all add: empty_store_def)
  have t: "truthy sample_intent" by (simp add: sample_intent_def)
  show ?thesis
    by (simp add: c crypto_flow_91 sample_webhook process_successful_payment_def
          find_payment_def sample_world_simps add_payment_simps commit_payment_simps
          commit_conversion_simps new_payment_simps t Let_def
        split: option.split
        del: sample_str.simps)
qed

text \<open>
  C2, amended. Over every sequence of operations from a well-formed store: a Payment that
  is in the store stays in it, in the status it had or in COMPLETED (the reconciliation
  step completes a Payment from any status, so also from FAILED, EXPIRED and REFUNDED), and
  hence a COMPLETED Payment stays COMPLETED; a Payment that was not in the store is
  PENDING, FAILED or COMPLETED afterwards. No operation sets EXPIRED or REFUNDED, and
  FAILED is set only by the call that inserted the Payment.
\<close>

theorem status_moves_only_to_completed:
  assumes "wf_store db"
  shows "(payments db k = Some p \<longrightarrow>
            (\<exists>p'. payments (run s ops db) k = Some p'
                  \<and> (status p' = status p \<or> status p' = COMPLETED)))
       \<and> (payments db k = None \<and> payments (run s ops db) k = Some q \<longrightarrow>
            status q = PENDING \<or> status q = FAILED \<or> status q = COMPLETED)"
  using run_evolves [OF assms, of s ops]
  unfolding evolves_def by blast

theorem status_moves_only_to_completed_witness:
  "wf_store (sample_store FAILED)
   \<and> payments (sample_store FAILED) 1 = Some (sample_payment FAILED)
   \<and> (\<exists>p'. payments (run sample_settings
                         [(sample_world 200, HandleWebhook ''stripe'' ''body'' (Some ''good''))]
                         (sample_store FAILED)) 1 = Some p'
           \<and> (status p' = status (sample_payment FAILED) \<or> status p' = COMPLETED))
   \<and> wf_store (empty_store 91 False)
   \<and> payments (empty_store 91 False) 1 = None
   \<and> payments (run sample_settings [(sample_world 100, CreateIntent 7 ''bitcoin'' None None)]
                 (empty_store 91 False)) 1 \<noteq> None
   \<and> status (the (payments (run sample_settings
                               [(sample_world 100, CreateIntent 7 ''bitcoin'' None None)]
                               (empty_store 91 False)) 1))
        \<in> {PENDING, FAILED, COMPLETED}"
proof -
  let ?r = "run sample_settings [(sample_world 100, CreateIntent 7 ''bitcoin'' None None)]
              (empty_store 91 False)"
  have a: "payments (sample_store FAILED) 1 = Some (sample_payment FAILED)"
    by (simp add: sample_store_def)
  have b: "payments (empty_store 91 False) 1 = None"
    by (simp add: empty_store_def)
  have c: "conversions (empty_store 91 False) 7 = Some (sample_conversion 91 False)"
          "next_payment_id (empty_store 91 False) = 1"
    by (simp_all add: empty_store_def)
  have d: "payments ?r 1 \<noteq> None"
    by (simp add: c crypto_flow_91 add_payment_simps new_payment_simps del: sample_str.simps)
  then have e: "payments ?r 1 = Some (the (payments ?r 1))"
    by simp
  note t1 = status_moves_only_to_completed [OF wf_sample_store, of FAILED 1 "sample_payment FAILED"
      sample_settings "[(sample_world 200, HandleWebhook ''stripe'' ''body'' (Some ''good''))]",
      THEN conjunct1, rule_format, OF a]
  note t2 = status_moves_only_to_completed [OF wf_empty_store, of 91 False 1 "sample_payment FAILED"
      sample_settings "[(sample_world 100, CreateIntent 7 ''bitcoin'' None None)]"
      "the (payments ?r 1)",
      THEN conjunct2, rule_format, OF conjI [OF b e]]
  show ?thesis
    using wf_sample_store [of FAILED] a t1 wf_empty_store [of 91 False] b d t2
    by simp
qed

section \<open>Rounding to binary64\<close>

lemma pow2_pos: "0 < pow2 e"
  by (simp add: pow2_def)

lemma pow2_neg_le:
  assumes "e \<le> - int m"
  shows "pow2 e \<le> 1 / 2 ^ m"
proof (cases "m = 0")
  case True
  with assms have "e \<le> 0" by simp
  then have "pow2 e \<le> 1"
    by (cases "e = 0") (simp_all add: pow2_def divide_le_eq_1)
  with True show ?thesis by simp
next
  case False
  with assms have e: "e < 0" "m \<le> nat (- e)" by auto
  then have "(2::rat) ^ m \<le> 2 ^ nat (- e)"
    by (intro power_increasing) auto
  with e(1) show ?thesis
    by (simp add: pow2_def frac_le)
qed

lemma bit_length_le:
  "n < 2 ^ m \<Longrightarrow> bit_length n \<le> int m"
proof (induction m arbitrary: n)
  case 0
  then show ?case by (simp add: bit_length.simps)
next
  case (Suc m)
  show ?case
  proof (cases "n \<le> 0")
    case True
    then show ?thesis by (simp add: bit_length.simps)
  next
    case False
    from Suc.prems have "n div 2 < 2 ^ m" by simp
    from Suc.IH [OF this] False show ?thesis
      by (subst bit_length.simps) simp
  qed
qed

lemma bit_length_pos: "0 < n \<Longrightarrow> 0 < bit_length n"
proof -
  assume "0 < n"
  moreover have "0 \<le> bit_length m" for m
    by (induction m rule: bit_length.induct) (subst bit_length.simps, simp)
  ultimately show ?thesis
    by (subst bit_length.simps) (simp add: add_pos_nonneg)
qed

lemma ilog2_less:
  assumes "0 < q" and "q < 2 ^ m" and "0 < m"
  shows "ilog2 q < int m"
proof (cases "1 \<le> q")
  case True
  from assms(2) have "\<lfloor>q\<rfloor> < 2 ^ m"
    by (simp add: floor_less_iff)
  from bit_length_le [OF this] True show ?thesis
    by (simp add: ilog2_def)
next
  case False
  with assms(1) have "1 < 1 / q" by simp
  then have "0 < \<lfloor>1 / q\<rfloor>" by simp
  from bit_length_pos [OF this] False assms(3) show ?thesis
    by (simp add: ilog2_def Let_def)
qed

lemma rnd_half_even_error: "\<bar>of_int (rnd_half_even y) - y\<bar> \<le> 1 / 2"
proof -
  have "of_int \<lfloor>y\<rfloor> \<le> y" "y < of_int \<lfloor>y\<rfloor> + 1"
    by linarith+
  then show ?thesis
    by (auto simp: rnd_half_even_def Let_def abs_le_iff)
qed

lemma rnd_half_even_near:
  assumes "\<bar>y - of_int m\<bar> < 1 / 2"
  shows "rnd_half_even y = m"
proof -
  have "\<bar>of_int (rnd_half_even y) - y\<bar> \<le> 1 / 2"
    by (rule rnd_half_even_error)
  with assms have "\<bar>(of_int (rnd_half_even y) :: rat) - of_int m\<bar> < 1"
    by linarith
  then have "\<bar>rnd_half_even y - m\<bar> < 1"
    by (metis of_int_abs of_int_diff of_int_less_1_iff)
  then show ?thesis by simp
qed

lemma rnd_half_even_int: "rnd_half_even (of_int m) = m"
  by (rule rnd_half_even_near) simp

lemma abs_scale:
  fixes a q c :: rat
  assumes "0 < c"
  shows "\<bar>a - q / c\<bar> * c = \<bar>a * c - q\<bar>"
proof -
  have "(a - q / c) * c = a * c - q"
    using assms by (simp add: left_diff_distrib)
  then have "\<bar>a * c - q\<bar> = \<bar>(a - q / c) * c\<bar>"
    by simp
  also have "\<dots> = \<bar>a - q / c\<bar> * \<bar>c\<bar>"
    by (rule abs_mult)
  finally show ?thesis
    using assms by simp
qed

text \<open>The rounding error is at most half the quantum.\<close>

lemma rnd64_error:
  assumes "0 < q" and "q < 2 ^ m" and "0 < m" and "m \<le> 52"
  shows "\<bar>rnd64 q - q\<bar> \<le> 1 / 2 ^ (53 - m)"
proof -
  define qe where "qe = max (ilog2 \<bar>q\<bar> - 52) (- 1074)"
  from ilog2_less [OF assms(1-3)] assms(1,4) have "qe \<le> - int (52 - m + 1)"
    by (simp add: qe_def)
  from pow2_neg_le [OF this] have "pow2 qe \<le> 1 / 2 ^ (52 - m + 1)" .
  moreover have "52 - m + 1 = 53 - m" using assms(4) by simp
  ultimately have le: "pow2 qe \<le> 1 / 2 ^ (53 - m)" by (simp only:)
  have r: "rnd64 q = of_int (rnd_half_even (q / pow2 qe)) * pow2 qe"
    using assms(1) by (simp add: rnd64_def qe_def Let_def)
  have "\<bar>of_int (rnd_half_even (q / pow2 qe)) - q / pow2 qe\<bar> * pow2 qe \<le> 1 / 2 * pow2 qe"
    using rnd_half_even_error pow2_pos by (intro mult_right_mono) (auto simp: less_imp_le)
  moreover have "\<bar>of_int (rnd_half_even (q / pow2 qe)) - q / pow2 qe\<bar> * pow2 qe
                   = \<bar>rnd64 q - q\<bar>"
    unfolding r by (rule abs_scale [OF pow2_pos])
  ultimately have "\<bar>rnd64 q - q\<bar> \<le> pow2 qe / 2" by simp
  also have "\<dots> \<le> pow2 qe" using pow2_pos [of qe] by simp
  also note le
  finally show ?thesis .
qed

text \<open>Integers below \<open>2\<^sup>5\<^sup>3\<close> are floats.\<close>

lemma rnd64_of_int:
  assumes "\<bar>k\<bar> < 2 ^ 53"
  shows "rnd64 (of_int k) = of_int k"
proof (cases "k = 0")
  case True
  then show ?thesis by (simp add: rnd64_def)
next
  case False
  define qe where "qe = max (ilog2 \<bar>of_int k\<bar> - 52) (- 1074)"
  have "(0::rat) < \<bar>of_int k\<bar>" using False by simp
  moreover have "\<bar>of_int k :: rat\<bar> < 2 ^ 53"
    using assms by (metis of_int_abs of_int_less_numeral_power_cancel_iff)
  ultimately have "ilog2 \<bar>of_int k\<bar> < 53"
    using ilog2_less [of "\<bar>of_int k\<bar>" 53] by simp
  then have "qe \<le> 0" by (simp add: qe_def)
  then have p: "pow2 qe = 1 / 2 ^ nat (- qe)"
    by (cases "qe = 0") (simp_all add: pow2_def)
  have "of_int k / pow2 qe = (of_int (k * 2 ^ nat (- qe)) :: rat)"
    by (simp add: p)
  then have "rnd_half_even (of_int k / pow2 qe) = k * 2 ^ nat (- qe)"
    by (simp only: rnd_half_even_int)
  then show ?thesis
    using False by (simp add: rnd64_def qe_def [symmetric] Let_def p)
qed

section \<open>Pricing\<close>

lemma one_tenth: "rnd64 (1 / 10) = 3602879701896397 / 36028797018963968"
  by code_simp

lemma sample_default_pricing: "default_pricing sample_settings"
  by (simp add: default_pricing_def one_tenth sample_settings_def)

lemma float_of_small_int:
  assumes "\<bar>k\<bar> < 2 ^ 53"
  shows "float_of_int k = Inr (Finite (of_int k))"
proof -
  have "\<bar>of_int k :: rat\<bar> < 2 ^ 53"
    using assms by (metis of_int_abs of_int_less_numeral_power_cancel_iff)
  also have "(2::rat) ^ 53 \<le> 2 ^ 1024"
    by (intro power_increasing) simp_all
  finally show ?thesis
    by (simp add: float_of_int_def rnd64_of_int [OF assms] overflows_def)
qed

text \<open>With the default pricing and a page count that a 32-bit column can hold, the float
  arithmetic of \<open>calculate_price\<close> loses nothing: the price is the float nearest to the
  exact decimal amount, a tenth of the number of extra pages.\<close>

lemma default_price_exact:
  assumes "default_pricing s" and "50 < n" and "n < 50 + 2 ^ 31"
  shows "calculate_price s n = Inr (Finite (rnd64 (of_int (n - 50) / 10)))"
proof -
  define k where "k = n - 50"
  define p :: rat where "p = 3602879701896397 / 36028797018963968"
  define q where "q = of_int k * p"
  have k: "0 < k" "k < 2 ^ 31"
    using assms(2,3) by (simp_all add: k_def)
  have kr: "(0::rat) < of_int k" "(of_int k :: rat) < 2 ^ 31"
    using k by (simp_all add: of_int_less_numeral_power_cancel_iff)
  have s: "price_per_page s = p" "free_page_limit s = 50"
    using assms(1) by (simp_all add: default_pricing_def one_tenth p_def)
  have fk: "float_of_int k = Inr (Finite (of_int k))"
    using k by (intro float_of_small_int) simp
  have q0: "0 < q"
    using kr by (simp add: q_def p_def)
  have "q < 2 ^ 31 * p"
    using kr by (simp add: q_def p_def)
  also have "\<dots> < 2 ^ 28"
    by (simp add: p_def)
  finally have q28: "q < 2 ^ 28" .
  from rnd64_error [OF q0 q28] have err: "\<bar>rnd64 q - q\<bar> \<le> 1 / 2 ^ 25"
    by simp
  have "\<bar>rnd64 q\<bar> \<le> \<bar>rnd64 q - q\<bar> + \<bar>q\<bar>"
    by linarith
  also have "\<dots> < 2 ^ 29"
    using err q0 q28 by simp
  also have "(2::rat) ^ 29 \<le> 2 ^ 1024"
    by (intro power_increasing) simp_all
  finally have fm: "fmul (Finite (of_int k)) (Finite p) = Finite (rnd64 q)"
    by (simp add: fmul_def overflows_def q_def Let_def)
  have "q - of_int k / 10 = of_int k / 180143985094819840"
    by (simp add: q_def p_def field_simps)
  then have "\<bar>q - of_int k / 10\<bar> < 1 / 2 ^ 25"
    using kr by simp
  with err have "\<bar>rnd64 q - of_int k / 10\<bar> < 2 / 2 ^ 25"
    by linarith
  moreover have "\<bar>rnd64 q * 100 - of_int (10 * k)\<bar> = \<bar>rnd64 q - of_int k / 10\<bar> * 100"
  proof -
    have "rnd64 q * 100 - of_int (10 * k) = (rnd64 q - of_int k / 10) * 100"
      by simp
    then have "\<bar>rnd64 q * 100 - of_int (10 * k)\<bar> = \<bar>(rnd64 q - of_int k / 10) * 100\<bar>"
      by (simp only:)
    also have "\<dots> = \<bar>rnd64 q - of_int k / 10\<bar> * \<bar>100\<bar>"
      by (rule abs_mult)
    finally show ?thesis by simp
  qed
  ultimately have "\<bar>rnd64 q * 100 - of_int (10 * k)\<bar> < 1 / 2"
    by simp
  from rnd_half_even_near [OF this]
  have "py_round2 (Finite (rnd64 q)) = Finite (rnd64 (of_int k / 10))"
    by (simp add: py_round2_def)
  with fk fm s assms(2) show ?thesis
    by (simp add: calculate_price_def k_def [symmetric] Let_def)
qed

text \<open>
  C4. \<open>calculate_price\<close> is a function of the settings and the page count, and
  \<^item> for a page count at or below the free limit it returns \<open>0.0\<close>;
  \<^item> above the limit, when the float product of the extra pages and the price per page
    is finite, it returns the float nearest to a number of hundredths within half a cent
    of that product (the product rounded to two decimals);
  \<^item> with the default pricing and up to \<open>2\<^sup>3\<^sup>1\<close> extra pages it returns the float nearest to
    the exact decimal amount \<open>(page_count - 50) \<times> 0.10\<close>;
  \<^item> with the default pricing, 80 pages cost exactly \<open>3.0\<close>.
\<close>

theorem calculate_price_rounds_to_cents:
  "(n \<le> free_page_limit s \<longrightarrow> calculate_price s n = Inr (Finite 0))
   \<and> (free_page_limit s < n
        \<and> float_of_int (n - free_page_limit s) = Inr f
        \<and> fmul f (Finite (price_per_page s)) = Finite x \<longrightarrow>
        (\<exists>m. calculate_price s n = Inr (Finite (rnd64 (of_int m / 100)))
             \<and> \<bar>x * 100 - of_int m\<bar> \<le> 1 / 2))
   \<and> (default_pricing s \<and> 50 < n \<and> n < 50 + 2 ^ 31 \<longrightarrow>
        calculate_price s n = Inr (Finite (rnd64 (of_int (n - 50) / 10))))
   \<and> (default_pricing s \<longrightarrow> calculate_price s 80 = Inr (Finite 3))"
proof (intro conjI impI)
  assume "n \<le> free_page_limit s"
  then show "calculate_price s n = Inr (Finite 0)"
    by (simp add: calculate_price_def)
next
  assume a: "free_page_limit s < n
        \<and> float_of_int (n - free_page_limit s) = Inr f
        \<and> fmul f (Finite (price_per_page s)) = Finite x"
  have "\<bar>x * 100 - of_int (rnd_half_even (x * 100))\<bar> \<le> 1 / 2"
    using rnd_half_even_error [of "x * 100"] by (simp add: abs_minus_commute)
  with a show "\<exists>m. calculate_price s n = Inr (Finite (rnd64 (of_int m / 100)))
             \<and> \<bar>x * 100 - of_int m\<bar> \<le> 1 / 2"
    by (intro exI [of _ "rnd_half_even (x * 100)"])
       (simp add: calculate_price_def py_round2_def Let_def)
next
  assume "default_pricing s \<and> 50 < n \<and> n < 50 + 2 ^ 31"
  then show "calculate_price s n = Inr (Finite (rnd64 (of_int (n - 50) / 10)))"
    by (intro default_price_exact) simp_all
next
  assume "default_pricing s"
  then have "calculate_price s 80 = Inr (Finite (rnd64 (of_int (80 - 50) / 10)))"
    by (intro default_price_exact) simp_all
  moreover have "rnd64 3 = 3"
    using rnd64_of_int [of 3] by simp
  ultimately show "calculate_price s 80 = Inr (Finite 3)"
    by simp
qed

theorem calculate_price_rounds_to_cents_witness:
  "(10::int) \<le> free_page_limit sample_settings
   \<and> calculate_price sample_settings 10 = Inr (Finite 0)
   \<and> free_page_limit sample_settings < 80
   \<and> float_of_int (80 - free_page_limit sample_settings) = Inr (Finite 30)
   \<and> fmul (Finite 30) (Finite (price_per_page sample_settings))
        = Finite 3
   \<and> (\<exists>m. calculate_price sample_settings 80 = Inr (Finite (rnd64 (of_int m / 100)))
          \<and> \<bar>(3::rat) * 100 - of_int m\<bar> \<le> 1 / 2)
   \<and> default_pricing sample_settings \<and> (50::int) < 80 \<and> (80::int) < 50 + 2 ^ 31
   \<and> calculate_price sample_settings 80 = Inr (Finite (rnd64 (of_int (80 - 50) / 10)))
   \<and> calculate_price sample_settings 80 = Inr (Finite 3)"
proof -
  have a: "(10::int) \<le> free_page_limit sample_settings"
          "free_page_limit sample_settings < 80"
    by (simp_all add: sample_settings_simps)
  have b: "float_of_int (80 - free_page_limit sample_settings) = Inr (Finite 30)"
    using float_of_small_int [of 30] by (simp add: sample_settings_simps)
  have c: "fmul (Finite 30) (Finite (price_per_page sample_settings))
        = Finite 3"
    by code_simp
  note d = sample_default_pricing
  note t = calculate_price_rounds_to_cents [of _ sample_settings]
  from t [of 10 "Finite 30" 0] a(1) have r1: "calculate_price sample_settings 10 = Inr (Finite 0)"
    by blast
  from t [of 80 "Finite 30" 3] a(2) b c
  have r2: "\<exists>m. calculate_price sample_settings 80 = Inr (Finite (rnd64 (of_int m / 100)))
          \<and> \<bar>(3::rat) * 100 - of_int m\<bar> \<le> 1 / 2"
    by blast
  have h: "(50::int) < 80" "(80::int) < 50 + 2 ^ 31"
    by simp_all
  from t [of 80 "Finite 30" 0] d h
  have r3: "calculate_price sample_settings 80 = Inr (Finite (rnd64 (of_int (80 - 50) / 10)))"
    and r4: "calculate_price sample_settings 80 = Inr (Finite 3)"
    by blast+
  show ?thesis
    using a b c d h r1 r2 r3 r4 by blast
qed

end
